theory Spec2Isabelle
  imports Complex_Main
begin

section \<open>Python exceptions\<close>

text \<open>
  The exceptions that \<^verbatim>\<open>autoencoder.py\<close> raises itself (\<^verbatim>\<open>assert\<close>, \<^verbatim>\<open>raise ValueError\<close>)
  or that the Python interpreter and numpy raise on its behalf (attribute access on
  \<^verbatim>\<open>None\<close>, calling \<^verbatim>\<open>None\<close>, \<^verbatim>\<open>list - number\<close>, a negative dimension).
  A computation that may raise returns \<open>py_error + 'a\<close>, \<open>Inl\<close> being the exception.
\<close>

datatype py_error = AssertionError | AttributeError | TypeError | ValueError

definition and_then :: "py_error + 'a \<Rightarrow> ('a \<Rightarrow> py_error + 'b) \<Rightarrow> py_error + 'b" where
  "and_then m f = (case m of Inl e \<Rightarrow> Inl e | Inr x \<Rightarrow> f x)"

section \<open>Arrays\<close>

text \<open>
  A two-dimensional numpy array is its shape and its entries in row-major order; a
  one-dimensional array is the list of its entries. Entries are real numbers: rounding to
  \<^verbatim>\<open>floatX\<close> is not modelled.
\<close>

datatype matrix = Matrix (nrows: nat) (ncols: nat) (cells: "real list")

datatype ndarray = Array1 "real list" | Array2 matrix

definition well_shaped :: "matrix \<Rightarrow> bool" where
  "well_shaped m = (length (cells m) = nrows m * ncols m)"

definition entry :: "matrix \<Rightarrow> nat \<Rightarrow> nat \<Rightarrow> real" where
  "entry m i j = cells m ! (i * ncols m + j)"

text \<open>\<^verbatim>\<open>m.T\<close>: entry \<open>(j, i)\<close> of the result is entry \<open>(i, j)\<close> of \<open>m\<close>.\<close>

definition matrix_T :: "matrix \<Rightarrow> matrix" where
  "matrix_T m =
     Matrix (ncols m) (nrows m)
       (map (\<lambda>k. cells m ! ((k mod nrows m) * ncols m + k div nrows m))
            [0 ..< ncols m * nrows m])"

fun ndarray_T :: "ndarray \<Rightarrow> ndarray" where
  "ndarray_T (Array1 xs) = Array1 xs"
| "ndarray_T (Array2 m) = Array2 (matrix_T m)"

text \<open>\<^verbatim>\<open>numpy.zeros(n)\<close>; numpy refuses a negative dimension.\<close>

definition numpy_zeros :: "int \<Rightarrow> py_error + ndarray" where
  "numpy_zeros n = (if n < 0 then Inl ValueError else Inr (Array1 (replicate (nat n) 0)))"

text \<open>\<^verbatim>\<open>tensor.dot(x, w)\<close> on two matrices; the inner dimensions must agree.\<close>

definition dot :: "matrix \<Rightarrow> matrix \<Rightarrow> py_error + matrix" where
  "dot x w =
     (if ncols x \<noteq> nrows w then Inl ValueError
      else Inr (Matrix (nrows x) (ncols w)
        (concat (map (\<lambda>i. map (\<lambda>j.
            (\<Sum>l\<leftarrow>[0 ..< ncols x]. cells x ! (i * ncols x + l) * cells w ! (l * ncols w + j)))
          [0 ..< ncols w]) [0 ..< nrows x]))))"

text \<open>\<^verbatim>\<open>b + m\<close>, a vector broadcast over the rows of a matrix.\<close>

definition add_rowwise :: "real list \<Rightarrow> matrix \<Rightarrow> py_error + matrix" where
  "add_rowwise b m =
     (if length b \<noteq> ncols m then Inl ValueError
      else Inr (Matrix (nrows m) (ncols m)
        (map (\<lambda>k. b ! (k mod ncols m) + cells m ! k) [0 ..< nrows m * ncols m])))"

text \<open>\<^verbatim>\<open>.5 - a * irange\<close>, entry by entry, as \<^verbatim>\<open>_initialize_weights\<close> writes it.\<close>

definition half_minus_scaled :: "matrix \<Rightarrow> real \<Rightarrow> matrix" where
  "half_minus_scaled a ir = Matrix (nrows a) (ncols a) (map (\<lambda>x. 1 / 2 - x * ir) (cells a))"

section \<open>Shared variables, symbolic views and the random generators\<close>

text \<open>
  A Theano shared variable is a mutable cell that holds an array; \<^verbatim>\<open>x.T\<close> on a variable is
  a symbolic expression over that same cell, not a new cell. A \<^verbatim>\<open>numpy.random.RandomState\<close>
  is a mutable object too, and \<^verbatim>\<open>build_stacked_ae\<close> hands one object to every layer.
  Both live in the world: cells and generator objects are addressed by numbers handed out
  in order. \<open>os_entropy\<close> is the seed that \<^verbatim>\<open>RandomState(None)\<close> reads from the operating
  system.
\<close>

datatype tensor_var = SharedVariable nat | Transposed tensor_var

record 'g world =
  shared_values :: "nat \<Rightarrow> ndarray"
  shared_count :: nat
  rng_states :: "nat \<Rightarrow> 'g"
  rng_count :: nat
  os_entropy :: int

fun get_value :: "'g world \<Rightarrow> tensor_var \<Rightarrow> ndarray" where
  "get_value w (SharedVariable a) = shared_values w a"
| "get_value w (Transposed v) = ndarray_T (get_value w v)"

text \<open>\<^verbatim>\<open>v.set_value(x)\<close>: the in-place update an optimizer applies to a parameter.\<close>

fun set_value :: "tensor_var \<Rightarrow> ndarray \<Rightarrow> 'g world \<Rightarrow> 'g world" where
  "set_value (SharedVariable a) x w = w\<lparr>shared_values := (shared_values w)(a := x)\<rparr>"
| "set_value (Transposed v) x w = w"

text \<open>\<^verbatim>\<open>sharedX(value)\<close> allocates a fresh cell.\<close>

definition allocate :: "ndarray \<Rightarrow> 'g world \<Rightarrow> 'g world" where
  "allocate x w =
     w\<lparr>shared_values := (shared_values w)(shared_count w := x),
       shared_count := Suc (shared_count w)\<rparr>"

definition sharedX :: "ndarray \<Rightarrow> 'g world \<Rightarrow> tensor_var \<times> 'g world" where
  "sharedX x w = (SharedVariable (shared_count w), allocate x w)"

text \<open>A generator object is created in a given state, and a draw leaves it in a new one.\<close>

definition add_generator :: "'g \<Rightarrow> 'g world \<Rightarrow> 'g world" where
  "add_generator g w =
     w\<lparr>rng_states := (rng_states w)(rng_count w := g), rng_count := Suc (rng_count w)\<rparr>"

definition set_state :: "nat \<Rightarrow> 'g \<Rightarrow> 'g world \<Rightarrow> 'g world" where
  "set_state r g w = w\<lparr>rng_states := (rng_states w)(r := g)\<rparr>"

section \<open>Activations, inputs and the autoencoder object\<close>

type_synonym activation = "matrix \<Rightarrow> matrix"

text \<open>
  \<^verbatim>\<open>encode\<close> and \<^verbatim>\<open>reconstruct\<close> take one minibatch (a 2-tensor) or a list of them.
\<close>

datatype inputs = Tensor matrix | TensorList "matrix list"

datatype act_arg = ActNone | ActName string | ActCallable activation

datatype rng_arg = RngSeed int | RngNone | RngObject nat

datatype ae_class = Autoencoder_class | DenoisingAutoencoder_class | ContractingAutoencoder_class

record autoencoder =
  self_class :: ae_class
  self_nhid :: int
  self_irange :: real
  self_tied_weights :: bool
  self_rng :: nat
  self_hidbias :: "tensor_var option"
  self_visbias :: "tensor_var option"
  self_weights :: "tensor_var option"
  self_s_rng :: "int option"
  self_w_prime :: "tensor_var option"
  self_act_enc :: "activation option"
  self_act_dec :: "activation option"
  self_params :: "tensor_var option list"
  self_solution :: "string option"
  self_sparse_penalty :: "real option"
  self_sparsity_target :: "real option"
  self_sparsity_target_penalty :: "real option"
  self_regularization :: real
  self_hiddens :: "inputs option"
  self_corruptor :: "(matrix \<Rightarrow> matrix) option"

text \<open>The object before \<^verbatim>\<open>__init__\<close> has assigned any attribute.\<close>

definition new_object :: "ae_class \<Rightarrow> autoencoder" where
  "new_object c =
     \<lparr>self_class = c, self_nhid = 0, self_irange = 0, self_tied_weights = False,
      self_rng = 0, self_hidbias = None, self_visbias = None, self_weights = None,
      self_s_rng = None, self_w_prime = None, self_act_enc = None, self_act_dec = None,
      self_params = [], self_solution = None, self_sparse_penalty = None,
      self_sparsity_target = None, self_sparsity_target_penalty = None,
      self_regularization = 0, self_hiddens = None, self_corruptor = None\<rparr>"

text \<open>
  What the module takes from numpy, Theano and the rest of the package, none of it among
  the sources: the generator of \<^verbatim>\<open>numpy.random\<close> (\<open>random_sample\<close> is one draw of
  \<^verbatim>\<open>rand\<close>), the three namespaces in which an activation name is looked up,
  \<^verbatim>\<open>is_pure_elemwise\<close> applied to the activation's graph on the placeholder, and
  \<^verbatim>\<open>Block._set_params\<close>.
\<close>

record 'g library =
  RandomState :: "int \<Rightarrow> py_error + 'g"
  random_sample :: "'g \<Rightarrow> real \<times> 'g"
  randint :: "int \<Rightarrow> 'g \<Rightarrow> int \<times> 'g"
  module_globals :: "string \<Rightarrow> activation option"
  tensor_nnet :: "string \<Rightarrow> activation option"
  tensor_module :: "string \<Rightarrow> activation option"
  is_pure_elemwise :: "activation \<Rightarrow> bool"
  set_params :: "autoencoder \<Rightarrow> py_error + tensor_var option list"

fun draw_samples :: "('g \<Rightarrow> real \<times> 'g) \<Rightarrow> nat \<Rightarrow> 'g \<Rightarrow> real list \<times> 'g" where
  "draw_samples f 0 g = ([], g)"
| "draw_samples f (Suc n) g =
     (case f g of (x, g') \<Rightarrow> (case draw_samples f n g' of (xs, g'') \<Rightarrow> (x # xs, g'')))"

text \<open>\<^verbatim>\<open>rng.rand(rows, cols)\<close> on the generator object \<open>r\<close>.\<close>

definition rng_rand :: "'g library \<Rightarrow> nat \<Rightarrow> int \<Rightarrow> int \<Rightarrow> 'g world \<Rightarrow> py_error + (matrix \<times> 'g world)" where
  "rng_rand lib r rows cols w =
     (if rows < 0 \<or> cols < 0 then Inl ValueError
      else (case draw_samples (random_sample lib) (nat rows * nat cols) (rng_states w r) of
              (xs, g') \<Rightarrow> Inr (Matrix (nat rows) (nat cols) xs, set_state r g' w)))"

text \<open>\<^verbatim>\<open>rng.randint(high)\<close> on the generator object \<open>r\<close>.\<close>

definition rng_randint :: "'g library \<Rightarrow> nat \<Rightarrow> int \<Rightarrow> 'g world \<Rightarrow> int \<times> 'g world" where
  "rng_randint lib r high w =
     (case randint lib high (rng_states w r) of
        (k, g') \<Rightarrow> (k, set_state r g' w))"

text \<open>
  \<^verbatim>\<open>if not hasattr(rng, 'randn'): rng = numpy.random.RandomState(rng)\<close>: a seed (or
  \<^verbatim>\<open>None\<close>) makes a new generator object, a generator object is used as it is.
\<close>

definition make_rng :: "'g library \<Rightarrow> 'g world \<Rightarrow> rng_arg \<Rightarrow> py_error + (nat \<times> 'g world)" where
  "make_rng lib w a =
     (case a of
        RngObject r \<Rightarrow> Inr (r, w)
      | _ \<Rightarrow>
        and_then (RandomState lib (case a of RngSeed s \<Rightarrow> s | _ \<Rightarrow> os_entropy w))
          (\<lambda>g. Inr (rng_count w, add_generator g w)))"


section \<open>The class \<^verbatim>\<open>Autoencoder\<close>\<close>

text \<open>The arguments of \<^verbatim>\<open>__init__\<close>, in the order of its signature.\<close>

record ae_args =
  arg_nvis :: int
  arg_nhid :: int
  arg_act_enc :: act_arg
  arg_act_dec :: act_arg
  arg_tied_weights :: bool
  arg_solution :: "string option"
  arg_sparse_penalty :: "real option"
  arg_sparsity_target :: "real option"
  arg_sparsity_target_penalty :: "real option"
  arg_irange :: real
  arg_rng :: rng_arg

definition initialize_hidbias :: "'g world \<Rightarrow> autoencoder \<Rightarrow> py_error + (autoencoder \<times> 'g world)" where
  "initialize_hidbias w self =
     and_then (numpy_zeros (self_nhid self))
       (\<lambda>z. case sharedX z w of (v, w') \<Rightarrow> Inr (self\<lparr>self_hidbias := Some v\<rparr>, w'))"

definition initialize_visbias :: "'g world \<Rightarrow> autoencoder \<Rightarrow> int \<Rightarrow> py_error + (autoencoder \<times> 'g world)" where
  "initialize_visbias w self nvis =
     and_then (numpy_zeros nvis)
       (\<lambda>z. case sharedX z w of (v, w') \<Rightarrow> Inr (self\<lparr>self_visbias := Some v\<rparr>, w'))"

text \<open>
  \<^verbatim>\<open>_initialize_weights(self, nvis, rng=None, irange=None)\<close>. The body resolves the
  argument \<^verbatim>\<open>irange\<close> and then scales by \<^verbatim>\<open>self.irange\<close>.
\<close>

definition initialize_weights ::
  "'g library \<Rightarrow> 'g world \<Rightarrow> autoencoder \<Rightarrow> int \<Rightarrow> nat option \<Rightarrow> real option
     \<Rightarrow> py_error + (autoencoder \<times> 'g world)" where
  "initialize_weights lib w self nvis rng irange =
     (let r = (case rng of None \<Rightarrow> self_rng self | Some r' \<Rightarrow> r');
          ir = (case irange of None \<Rightarrow> self_irange self | Some i \<Rightarrow> i)
      in and_then (rng_rand lib r nvis (self_nhid self) w)
           (\<lambda>(a, w'). case sharedX (Array2 (half_minus_scaled a (self_irange self))) w' of
                (v, w'') \<Rightarrow> Inr (self\<lparr>self_weights := Some v\<rparr>, w'')))"

text \<open>
  The truth value of a Python tuple is whether it is non-empty.
  \<^verbatim>\<open>_initialize_w_prime\<close> asserts the tuple \<^verbatim>\<open>(not self.tied_weights, "Can't ...")\<close>.
\<close>

datatype py_object = PyBool bool | PyStr string

definition tuple_truth :: "py_object list \<Rightarrow> bool" where
  "tuple_truth t = (t \<noteq> [])"

definition initialize_w_prime ::
  "'g library \<Rightarrow> 'g world \<Rightarrow> autoencoder \<Rightarrow> int \<Rightarrow> nat option \<Rightarrow> real option
     \<Rightarrow> py_error + (autoencoder \<times> 'g world)" where
  "initialize_w_prime lib w self nvis rng irange =
     (if \<not> tuple_truth
            [PyBool (\<not> self_tied_weights self),
             PyStr (''Can't initialize w_prime in tied weights model; ''
                    @ ''this method shouldn't have been called'')]
      then Inl AssertionError
      else
        let r = (case rng of None \<Rightarrow> self_rng self | Some r' \<Rightarrow> r');
            ir = (case irange of None \<Rightarrow> self_irange self | Some i \<Rightarrow> i)
        in and_then (rng_rand lib r (self_nhid self) nvis w)
             (\<lambda>(a, w'). case sharedX (Array2 (half_minus_scaled a ir)) w' of
                  (v, w'') \<Rightarrow> Inr (self\<lparr>self_w_prime := Some v\<rparr>, w'')))"

text \<open>
  \<^verbatim>\<open>_resolve_callable\<close>: \<^verbatim>\<open>None\<close> and \<^verbatim>\<open>"linear"\<close> give \<^verbatim>\<open>None\<close>, a callable is
  itself, a name is looked up in the module's globals, then in
  \<^verbatim>\<open>theano.tensor.nnet\<close>, then in \<^verbatim>\<open>theano.tensor\<close>.
\<close>

definition resolve_callable :: "'g library \<Rightarrow> act_arg \<Rightarrow> py_error + activation option" where
  "resolve_callable lib a =
     (case a of
        ActNone \<Rightarrow> Inr None
      | ActCallable f \<Rightarrow> Inr (Some f)
      | ActName s \<Rightarrow>
          if s = ''linear'' then Inr None
          else (case module_globals lib s of
                  Some f \<Rightarrow> Inr (Some f)
                | None \<Rightarrow>
                   (case tensor_nnet lib s of
                      Some f \<Rightarrow> Inr (Some f)
                    | None \<Rightarrow>
                       (case tensor_module lib s of
                          Some f \<Rightarrow> Inr (Some f)
                        | None \<Rightarrow> Inl ValueError))))"

text \<open>
  \<^verbatim>\<open>Autoencoder.__init__\<close> on a new object of class \<open>c\<close>. With \<^verbatim>\<open>tied_weights\<close>,
  \<^verbatim>\<open>self.weights.T\<close> is an attribute access on \<^verbatim>\<open>self.weights\<close>, which is \<^verbatim>\<open>None\<close> when
  \<^verbatim>\<open>nvis\<close> is 0.
\<close>

definition Autoencoder_init ::
  "'g library \<Rightarrow> 'g world \<Rightarrow> ae_class \<Rightarrow> ae_args \<Rightarrow> py_error + (autoencoder \<times> 'g world)" where
  "Autoencoder_init lib w c a =
     (if \<not> arg_nvis a \<ge> 0 then Inl AssertionError
      else if \<not> arg_nhid a > 0 then Inl AssertionError
      else
        and_then (make_rng lib w (arg_rng a)) (\<lambda>(r, w).
        and_then (initialize_hidbias w
                    ((new_object c)\<lparr>self_nhid := arg_nhid a, self_irange := arg_irange a,
                                    self_tied_weights := arg_tied_weights a, self_rng := r\<rparr>))
          (\<lambda>(self, w).
        and_then (if arg_nvis a > 0
                  then and_then (initialize_visbias w self (arg_nvis a))
                         (\<lambda>(self, w). initialize_weights lib w self (arg_nvis a) None None)
                  else Inr (self\<lparr>self_visbias := None, self_weights := None\<rparr>, w))
          (\<lambda>(self, w).
        case rng_randint lib (self_rng self) (2 ^ 30) w of (seed, w) \<Rightarrow>
        and_then (if arg_tied_weights a
                  then (case self_weights self of
                          None \<Rightarrow> Inl AttributeError
                        | Some W \<Rightarrow> Inr (self\<lparr>self_s_rng := Some seed,
                                                self_w_prime := Some (Transposed W)\<rparr>, w))
                  else initialize_w_prime lib w (self\<lparr>self_s_rng := Some seed\<rparr>)
                         (arg_nvis a) None None)
          (\<lambda>(self, w).
        and_then (resolve_callable lib (arg_act_enc a)) (\<lambda>enc.
        and_then (resolve_callable lib (arg_act_dec a)) (\<lambda>dec.
        Inr (self\<lparr>self_act_enc := enc, self_act_dec := dec,
                  self_params :=
                    [self_visbias self, self_hidbias self, self_weights self]
                    @ (if \<not> self_tied_weights self then [self_w_prime self] else []),
                  self_solution := arg_solution a,
                  self_sparse_penalty := arg_sparse_penalty a,
                  self_sparsity_target := arg_sparsity_target a,
                  self_sparsity_target_penalty := arg_sparsity_target_penalty a,
                  self_regularization := 0\<rparr>, w))))))))"

definition Autoencoder :: "'g library \<Rightarrow> 'g world \<Rightarrow> ae_args \<Rightarrow> py_error + (autoencoder \<times> 'g world)" where
  "Autoencoder lib w a = Autoencoder_init lib w Autoencoder_class a"

text \<open>
  \<^verbatim>\<open>set_visible_size(self, nvis, rng=None)\<close>. \<^verbatim>\<open>_set_params\<close> is a method of the base
  class \<^verbatim>\<open>Block\<close>; it is taken from the library and yields the new \<^verbatim>\<open>_params\<close>.
\<close>

definition set_visible_size ::
  "'g library \<Rightarrow> 'g world \<Rightarrow> autoencoder \<Rightarrow> int \<Rightarrow> nat option
     \<Rightarrow> py_error + (autoencoder \<times> 'g world)" where
  "set_visible_size lib w self nvis rng =
     (if self_weights self \<noteq> None then Inl ValueError
      else
        let self = (case rng of Some r \<Rightarrow> self\<lparr>self_rng := r\<rparr> | None \<Rightarrow> self);
            r = self_rng self
        in and_then (initialize_visbias w self nvis) (\<lambda>(self, w).
           and_then (initialize_weights lib w self nvis (Some r) None) (\<lambda>(self, w).
           and_then (if \<not> self_tied_weights self
                     then initialize_w_prime lib w self nvis (Some r) None
                     else Inr (self, w)) (\<lambda>(self, w).
           and_then (set_params lib self) (\<lambda>ps. Inr (self\<lparr>self_params := ps\<rparr>, w))))))"


subsection \<open>Encoding\<close>

text \<open>
  The module builds a Theano graph that is evaluated later; the model computes the arrays
  at once, on the current values of the shared variables. \<^verbatim>\<open>tensor.dot\<close> refuses
  \<^verbatim>\<open>None\<close>, so an object whose weights are not allocated cannot encode.
\<close>

definition hidden_input :: "'g world \<Rightarrow> autoencoder \<Rightarrow> matrix \<Rightarrow> py_error + matrix" where
  "hidden_input w self x =
     (case (self_hidbias self, self_weights self) of
        (Some hb, Some W) \<Rightarrow>
          (case (get_value w hb, get_value w W) of
             (Array1 b, Array2 m) \<Rightarrow> and_then (dot x m) (add_rowwise b)
           | _ \<Rightarrow> Inl TypeError)
      | _ \<Rightarrow> Inl TypeError)"

definition hidden_activation :: "'g world \<Rightarrow> autoencoder \<Rightarrow> matrix \<Rightarrow> py_error + matrix" where
  "hidden_activation w self x =
     (let act_enc = (case self_act_enc self of None \<Rightarrow> (\<lambda>x. x) | Some f \<Rightarrow> f)
      in and_then (hidden_input w self x) (\<lambda>a. Inr (act_enc a)))"

fun map_raising :: "('a \<Rightarrow> py_error + 'b) \<Rightarrow> 'a list \<Rightarrow> py_error + 'b list" where
  "map_raising f [] = Inr []"
| "map_raising f (x # xs) =
     and_then (f x) (\<lambda>y. and_then (map_raising f xs) (\<lambda>ys. Inr (y # ys)))"

definition encode :: "'g world \<Rightarrow> autoencoder \<Rightarrow> inputs \<Rightarrow> py_error + inputs" where
  "encode w self inp =
     (case inp of
        Tensor x \<Rightarrow> and_then (hidden_activation w self x) (\<lambda>h. Inr (Tensor h))
      | TensorList xs \<Rightarrow>
          and_then (map_raising (hidden_activation w self) xs) (\<lambda>hs. Inr (TensorList hs)))"

subsection \<open>Regularization and reconstruction\<close>

text \<open>
  \<^verbatim>\<open>tensor.sum\<close> of one tensor adds its entries; of a list of tensors it adds the entries
  of all of them. \<^verbatim>\<open>hiddens - self.sparsity_target\<close> on a Python list is a TypeError, and
  so is arithmetic with a coefficient that is \<^verbatim>\<open>None\<close>.
\<close>

fun tensor_sum :: "inputs \<Rightarrow> real" where
  "tensor_sum (Tensor h) = sum_list (cells h)"
| "tensor_sum (TensorList hs) = sum_list (map (\<lambda>h. sum_list (cells h)) hs)"

definition compute_regularization :: "autoencoder \<Rightarrow> inputs \<Rightarrow> py_error + real" where
  "compute_regularization self hiddens =
     (if self_solution self = Some ''l1_penalty'' then
        (case self_sparse_penalty self of
           None \<Rightarrow> Inl TypeError
         | Some l \<Rightarrow> Inr (l * tensor_sum hiddens))
      else if self_solution self = Some ''sqr_penalty'' then
        (case hiddens of
           TensorList hs \<Rightarrow> Inl TypeError
         | Tensor h \<Rightarrow>
            (case (self_sparsity_target self, self_sparsity_target_penalty self) of
               (Some t, Some p) \<Rightarrow> Inr (p * (\<Sum>x\<leftarrow>cells h. (x - t)\<^sup>2))
             | _ \<Rightarrow> Inl TypeError))
      else Inr 0)"

definition compute_penalty_value :: "autoencoder \<Rightarrow> real" where
  "compute_penalty_value self = self_regularization self"

text \<open>
  \<^verbatim>\<open>reconstruct\<close> assigns attributes of the object, and an exception leaves the assignments
  made before it: the result is the object as the call leaves it, with the value or the
  exception. \<open>Autoencoder_reconstruct_tensor\<close> is \<^verbatim>\<open>Autoencoder.reconstruct\<close> on one
  tensor.
\<close>

definition Autoencoder_reconstruct_tensor ::
  "'g world \<Rightarrow> autoencoder \<Rightarrow> matrix \<Rightarrow> autoencoder \<times> (py_error + matrix)" where
  "Autoencoder_reconstruct_tensor w self x =
     (case hidden_activation w self x of
        Inl e \<Rightarrow> (self, Inl e)
      | Inr h \<Rightarrow>
         (case compute_regularization self (Tensor h) of
            Inl e \<Rightarrow> (self\<lparr>self_hiddens := Some (Tensor h)\<rparr>, Inl e)
          | Inr reg \<Rightarrow>
             (self\<lparr>self_hiddens := Some (Tensor h), self_regularization := reg\<rparr>,
              let act_dec = (case self_act_dec self of None \<Rightarrow> (\<lambda>x. x) | Some f \<Rightarrow> f)
              in (case (self_visbias self, self_w_prime self) of
                    (Some vb, Some Wp) \<Rightarrow>
                      (case (get_value w vb, get_value w Wp) of
                         (Array1 b, Array2 m) \<Rightarrow>
                           and_then (and_then (dot h m) (add_rowwise b)) (\<lambda>y. Inr (act_dec y))
                       | _ \<Rightarrow> Inl TypeError)
                  | _ \<Rightarrow> Inl TypeError))))"

text \<open>
  \<^verbatim>\<open>self.reconstruct(inp)\<close> on one tensor, as the list branch calls it: the method of the
  object's class, which for a denoising autoencoder corrupts first.
\<close>

definition reconstruct_tensor ::
  "'g world \<Rightarrow> autoencoder \<Rightarrow> matrix \<Rightarrow> autoencoder \<times> (py_error + matrix)" where
  "reconstruct_tensor w self x =
     (if self_class self = DenoisingAutoencoder_class
      then (case self_corruptor self of
              None \<Rightarrow> (self, Inl TypeError)
            | Some c \<Rightarrow> Autoencoder_reconstruct_tensor w self (c x))
      else Autoencoder_reconstruct_tensor w self x)"

fun reconstruct_each ::
  "'g world \<Rightarrow> autoencoder \<Rightarrow> matrix list \<Rightarrow> autoencoder \<times> (py_error + matrix list)" where
  "reconstruct_each w self [] = (self, Inr [])"
| "reconstruct_each w self (x # xs) =
     (case reconstruct_tensor w self x of
        (self', Inl e) \<Rightarrow> (self', Inl e)
      | (self', Inr y) \<Rightarrow>
         (case reconstruct_each w self' xs of
            (self'', Inl e) \<Rightarrow> (self'', Inl e)
          | (self'', Inr ys) \<Rightarrow> (self'', Inr (y # ys))))"

text \<open>
  \<^verbatim>\<open>Autoencoder.reconstruct\<close>: encode, store the hiddens, compute and store the
  regularization of what was encoded (the whole list, when a list was given), and only
  then look at the kind of the input.
\<close>

definition Autoencoder_reconstruct ::
  "'g world \<Rightarrow> autoencoder \<Rightarrow> inputs \<Rightarrow> autoencoder \<times> (py_error + inputs)" where
  "Autoencoder_reconstruct w self inp =
     (case inp of
        Tensor x \<Rightarrow>
          (case Autoencoder_reconstruct_tensor w self x of
             (self', Inl e) \<Rightarrow> (self', Inl e)
           | (self', Inr y) \<Rightarrow> (self', Inr (Tensor y)))
      | TensorList xs \<Rightarrow>
          (case encode w self inp of
             Inl e \<Rightarrow> (self, Inl e)
           | Inr hiddens \<Rightarrow>
              (case compute_regularization self hiddens of
                 Inl e \<Rightarrow> (self\<lparr>self_hiddens := Some hiddens\<rparr>, Inl e)
               | Inr reg \<Rightarrow>
                  (case reconstruct_each w
                          (self\<lparr>self_hiddens := Some hiddens, self_regularization := reg\<rparr>) xs of
                     (self', Inl e) \<Rightarrow> (self', Inl e)
                   | (self', Inr ys) \<Rightarrow> (self', Inr (TensorList ys))))))"

section \<open>The subclasses\<close>

text \<open>
  \<^verbatim>\<open>DenoisingAutoencoder.__init__\<close> and its \<^verbatim>\<open>reconstruct\<close>. The corruptor is supplied
  by the caller; it is taken as a function on one batch that is applied to each batch of
  a list, and its randomness is not modelled.
\<close>

definition DenoisingAutoencoder ::
  "'g library \<Rightarrow> 'g world \<Rightarrow> (matrix \<Rightarrow> matrix) \<Rightarrow> ae_args \<Rightarrow> py_error + (autoencoder \<times> 'g world)" where
  "DenoisingAutoencoder lib w corruptor a =
     and_then (Autoencoder_init lib w DenoisingAutoencoder_class a)
       (\<lambda>(self, w). Inr (self\<lparr>self_corruptor := Some corruptor\<rparr>, w))"

fun corrupt :: "(matrix \<Rightarrow> matrix) \<Rightarrow> inputs \<Rightarrow> inputs" where
  "corrupt c (Tensor x) = Tensor (c x)"
| "corrupt c (TensorList xs) = TensorList (map c xs)"

definition DenoisingAutoencoder_reconstruct ::
  "'g world \<Rightarrow> autoencoder \<Rightarrow> inputs \<Rightarrow> autoencoder \<times> (py_error + inputs)" where
  "DenoisingAutoencoder_reconstruct w self inp =
     (case self_corruptor self of
        None \<Rightarrow> (self, Inl TypeError)
      | Some c \<Rightarrow> Autoencoder_reconstruct w self (corrupt c inp))"

text \<open>
  \<^verbatim>\<open>ContractingAutoencoder.__init__\<close> calls \<^verbatim>\<open>self.act_enc(dummyinput)\<close>; calling
  \<^verbatim>\<open>None\<close> is a TypeError.
\<close>

definition ContractingAutoencoder ::
  "'g library \<Rightarrow> 'g world \<Rightarrow> ae_args \<Rightarrow> py_error + (autoencoder \<times> 'g world)" where
  "ContractingAutoencoder lib w a =
     and_then (Autoencoder_init lib w ContractingAutoencoder_class a)
       (\<lambda>(self, w).
          case self_act_enc self of
            None \<Rightarrow> Inl TypeError
          | Some f \<Rightarrow> if \<not> is_pure_elemwise lib f then Inl ValueError else Inr (self, w))"


section \<open>The stack builder\<close>

text \<open>
  An argument of \<^verbatim>\<open>build_stacked_ae\<close> is one value for every layer, or a sequence with
  one value per layer: the builder takes it for a sequence when it is not a \<^verbatim>\<open>str\<close> and
  has \<^verbatim>\<open>__len__\<close>, and asserts that its length is that of \<^verbatim>\<open>nhids\<close>.
\<close>

datatype 'a hyper = Single 'a | PerLayer "'a list"

definition broadcast :: "nat \<Rightarrow> 'a hyper \<Rightarrow> py_error + 'a list" where
  "broadcast n h =
     (case h of
        PerLayer xs \<Rightarrow> if n = length xs then Inr xs else Inl AssertionError
      | Single x \<Rightarrow> Inr (replicate n x))"

record stack_args =
  stack_nvis :: int
  stack_nhids :: "int list"
  stack_act_enc :: "act_arg hyper"
  stack_act_dec :: "act_arg hyper"
  stack_tied_weights :: "bool hyper"
  stack_irange :: "real hyper"
  stack_rng :: rng_arg
  stack_corruptor :: "(matrix \<Rightarrow> matrix) option hyper"
  stack_contracting :: "bool hyper"
  stack_solution :: "string option hyper"
  stack_sparse_penalty :: "real option hyper"
  stack_sparsity_target :: "real option hyper"
  stack_sparsity_target_penalty :: "real option hyper"

type_synonym layer_spec =
  "int \<times> int \<times> act_arg \<times> act_arg \<times> (matrix \<Rightarrow> matrix) option \<times> bool \<times> bool \<times> real
     \<times> string option \<times> real option \<times> real option \<times> real option"

text \<open>The body of the loop that creates each layer; \<open>r\<close> is the generator object.\<close>

fun build_layer ::
  "'g library \<Rightarrow> 'g world \<Rightarrow> nat \<Rightarrow> layer_spec \<Rightarrow> py_error + (autoencoder \<times> 'g world)" where
  "build_layer lib w r
     (nhid, nvis, act_enc, act_dec, corr, cae, tied, ir, sol, spar_pen, spar_tar, spar_tar_pen) =
     (let args = \<lparr>arg_nvis = nvis, arg_nhid = nhid, arg_act_enc = act_enc,
                  arg_act_dec = act_dec, arg_tied_weights = tied, arg_solution = sol,
                  arg_sparse_penalty = spar_pen, arg_sparsity_target = spar_tar,
                  arg_sparsity_target_penalty = spar_tar_pen, arg_irange = ir,
                  arg_rng = RngObject r\<rparr>
      in if cae \<and> corr \<noteq> None then Inl ValueError
         else if cae then ContractingAutoencoder lib w args
         else (case corr of
                 Some c \<Rightarrow> DenoisingAutoencoder lib w c args
               | None \<Rightarrow> Autoencoder lib w args))"

fun build_layers ::
  "'g library \<Rightarrow> 'g world \<Rightarrow> nat \<Rightarrow> layer_spec list \<Rightarrow> py_error + (autoencoder list \<times> 'g world)" where
  "build_layers lib w r [] = Inr ([], w)"
| "build_layers lib w r (s # ss) =
     and_then (build_layer lib w r s) (\<lambda>(autoenc, w').
     and_then (build_layers lib w' r ss) (\<lambda>(layers, w''). Inr (autoenc # layers, w'')))"

text \<open>
  Modelled from the spec: \<^verbatim>\<open>StackedBlocks\<close> is defined in \<^verbatim>\<open>base.py\<close>, which is not among
  the sources. The spec calls it "an ordered sequence of layers" that is "wrapped in an
  immutable composite exposing chained encode": the stack is the list of its layers, and
  encoding feeds each layer's encoding to the next.
\<close>

type_synonym stacked_blocks = "autoencoder list"

fun stack_encode :: "'g world \<Rightarrow> stacked_blocks \<Rightarrow> inputs \<Rightarrow> py_error + inputs" where
  "stack_encode w [] inp = Inr inp"
| "stack_encode w (layer # layers) inp = and_then (encode w layer inp) (stack_encode w layers)"

text \<open>
  \<^verbatim>\<open>build_stacked_ae\<close>. \<^verbatim>\<open>izip\<close> stops at the shortest of its arguments, as \<open>zip\<close> does.
\<close>

definition build_stacked_ae ::
  "'g library \<Rightarrow> 'g world \<Rightarrow> stack_args \<Rightarrow> py_error + (stacked_blocks \<times> 'g world)" where
  "build_stacked_ae lib w a =
     and_then (make_rng lib w (stack_rng a)) (\<lambda>(r, w).
     let n = length (stack_nhids a) in
     and_then (broadcast n (stack_corruptor a)) (\<lambda>final_corruptor.
     and_then (broadcast n (stack_contracting a)) (\<lambda>final_contracting.
     and_then (broadcast n (stack_act_enc a)) (\<lambda>final_act_enc.
     and_then (broadcast n (stack_act_dec a)) (\<lambda>final_act_dec.
     and_then (broadcast n (stack_tied_weights a)) (\<lambda>final_tied_weights.
     and_then (broadcast n (stack_irange a)) (\<lambda>final_irange.
     and_then (broadcast n (stack_solution a)) (\<lambda>final_solution.
     and_then (broadcast n (stack_sparse_penalty a)) (\<lambda>final_sparse_penalty.
     and_then (broadcast n (stack_sparsity_target a)) (\<lambda>final_sparsity_target.
     and_then (broadcast n (stack_sparsity_target_penalty a)) (\<lambda>final_sparsity_target_penalty.
     let nviss = [stack_nvis a] @ butlast (stack_nhids a);
         seq = zip (stack_nhids a) (zip nviss (zip final_act_enc (zip final_act_dec
               (zip final_corruptor (zip final_contracting (zip final_tied_weights
               (zip final_irange (zip final_solution (zip final_sparse_penalty
               (zip final_sparsity_target final_sparsity_target_penalty))))))))))
     in build_layers lib w r seq)))))))))))"

section \<open>A small instance of the library\<close>

text \<open>
  A concrete generator and two activations, to run the definitions on examples. The
  generator counts: in state \<open>n\<close> it draws \<open>1 / (n + 2)\<close>, which lies in \<open>[0, 1)\<close> as the
  draws of \<^verbatim>\<open>rand\<close> do. \<open>rectifier\<close> works entry by entry; \<open>row_centred\<close> subtracts from
  each entry the sum of its row, so it mixes the coordinates of a row as a softmax does.
  The instance's \<open>is_pure_elemwise\<close> probes the activation: the first entry of the result
  must not change when only the second entry of the argument does.
\<close>

definition rectifier :: activation where
  "rectifier m = Matrix (nrows m) (ncols m) (map (\<lambda>x. max 0 x) (cells m))"

definition row_centred :: activation where
  "row_centred m =
     Matrix (nrows m) (ncols m)
       (map (\<lambda>k. cells m ! k
                 - (\<Sum>l\<leftarrow>[0 ..< ncols m]. cells m ! ((k div ncols m) * ncols m + l)))
            [0 ..< nrows m * ncols m])"

definition counting_library :: "nat library" where
  "counting_library =
     \<lparr>RandomState = (\<lambda>s. if s < 0 then Inl ValueError else Inr (nat s)),
      random_sample = (\<lambda>n. (1 / (real n + 2), Suc n)),
      randint = (\<lambda>high n. (int n mod high, Suc n)),
      module_globals = (\<lambda>s. if s = ''rectifier'' then Some rectifier else None),
      tensor_nnet = (\<lambda>s. if s = ''row_centred'' then Some row_centred else None),
      tensor_module = (\<lambda>s. None),
      is_pure_elemwise =
        (\<lambda>f. take 1 (cells (f (Matrix 1 2 [1, 0]))) = take 1 (cells (f (Matrix 1 2 [1, 1])))),
      set_params = (\<lambda>self. Inr ([self_visbias self, self_hidbias self, self_weights self]
                                @ (if \<not> self_tied_weights self then [self_w_prime self] else [])))\<rparr>"

definition empty_world :: "nat world" where
  "empty_world =
     \<lparr>shared_values = (\<lambda>a. Array1 []), shared_count = 0,
      rng_states = (\<lambda>r. 0), rng_count = 0, os_entropy = 0\<rparr>"


section \<open>Observations used in the statements\<close>

text \<open>
  The current values of the four parameters of an object, in the order visible bias,
  hidden bias, weights, decoder weights; \<open>None\<close> for a parameter that is not allocated.
\<close>

definition parameter_values :: "'g world \<Rightarrow> autoencoder \<Rightarrow> ndarray option list" where
  "parameter_values w self =
     map (map_option (get_value w))
       [self_visbias self, self_hidbias self, self_weights self, self_w_prime self]"

text \<open>The draws of \<^verbatim>\<open>rand\<close> lie in \<open>[0, 1)\<close>.\<close>

definition unit_interval_draws :: "'g library \<Rightarrow> bool" where
  "unit_interval_draws lib = (\<forall>g. 0 \<le> fst (random_sample lib g) \<and> fst (random_sample lib g) < 1)"

text \<open>Concrete arguments on which the statements below run the constructor.\<close>

definition deferred_tied_args :: ae_args where
  "deferred_tied_args =
     \<lparr>arg_nvis = 0, arg_nhid = 5, arg_act_enc = ActNone, arg_act_dec = ActNone,
      arg_tied_weights = True, arg_solution = Some [], arg_sparse_penalty = Some 0,
      arg_sparsity_target = Some 0, arg_sparsity_target_penalty = Some 0,
      arg_irange = 1 / 1000, arg_rng = RngSeed 9001\<rparr>"

definition sqr_args :: ae_args where
  "sqr_args =
     \<lparr>arg_nvis = 1, arg_nhid = 1, arg_act_enc = ActNone, arg_act_dec = ActNone,
      arg_tied_weights = False, arg_solution = Some ''sqr_penalty'', arg_sparse_penalty = Some 0,
      arg_sparsity_target = Some 0, arg_sparsity_target_penalty = Some 1,
      arg_irange = 1 / 1000, arg_rng = RngSeed 9001\<rparr>"

definition default_args :: ae_args where
  "default_args =
     \<lparr>arg_nvis = 2, arg_nhid = 1, arg_act_enc = ActNone, arg_act_dec = ActNone,
      arg_tied_weights = False, arg_solution = Some [], arg_sparse_penalty = Some 0,
      arg_sparsity_target = Some 0, arg_sparsity_target_penalty = Some 0,
      arg_irange = 1 / 1000, arg_rng = RngSeed 9001\<rparr>"

definition tied_args :: ae_args where
  "tied_args =
     \<lparr>arg_nvis = 2, arg_nhid = 1, arg_act_enc = ActNone, arg_act_dec = ActNone,
      arg_tied_weights = True, arg_solution = Some [], arg_sparse_penalty = Some 0,
      arg_sparsity_target = Some 0, arg_sparsity_target_penalty = Some 0,
      arg_irange = 1 / 1000, arg_rng = RngSeed 9001\<rparr>"

text \<open>
  The shape \<open>(visible size, hidden size)\<close> of a layer's weight matrix in a world; \<open>None\<close>
  for a layer whose weights are not allocated.
\<close>

definition layer_shape :: "'g world \<Rightarrow> autoencoder \<Rightarrow> (nat \<times> nat) option" where
  "layer_shape w self =
     (case self_weights self of
        None \<Rightarrow> None
      | Some W \<Rightarrow> (case get_value w W of Array2 m \<Rightarrow> Some (nrows m, ncols m) | Array1 b \<Rightarrow> None))"

text \<open>An activation that returns a tensor of the shape of its argument, as an elementwise one does.\<close>

definition shape_preserving :: "activation option \<Rightarrow> bool" where
  "shape_preserving act =
     (case act of None \<Rightarrow> True | Some f \<Rightarrow> (\<forall>m. nrows (f m) = nrows m \<and> ncols (f m) = ncols m))"

text \<open>
  A later world extends an earlier one when the cells of the earlier one are still there
  with their values; \<open>layer_ready\<close> says that a layer's hidden bias and weights are
  allocated with the given sizes.
\<close>

definition world_extends :: "'g world \<Rightarrow> 'g world \<Rightarrow> bool" where
  "world_extends w w' =
     (shared_count w \<le> shared_count w' \<and> (\<forall>k < shared_count w. shared_values w' k = shared_values w k))"

definition layer_ready :: "'g world \<Rightarrow> autoencoder \<Rightarrow> nat \<Rightarrow> nat \<Rightarrow> bool" where
  "layer_ready w self nv nh =
     (\<exists>hb W b m. self_hidbias self = Some hb \<and> self_weights self = Some W
        \<and> get_value w hb = Array1 b \<and> length b = nh
        \<and> get_value w W = Array2 m \<and> nrows m = nv \<and> ncols m = nh)"

text \<open>The class that the loop of \<^verbatim>\<open>build_stacked_ae\<close> instantiates for a layer.\<close>

definition layer_class :: "bool \<Rightarrow> (matrix \<Rightarrow> matrix) option \<Rightarrow> ae_class" where
  "layer_class cae corr =
     (if cae then ContractingAutoencoder_class
      else if corr \<noteq> None then DenoisingAutoencoder_class
      else Autoencoder_class)"

text \<open>Two calls of the stack builder on the small instance.\<close>

definition demo_stack :: stack_args where
  "demo_stack =
     \<lparr>stack_nvis = 2, stack_nhids = [2, 1],
      stack_act_enc = Single (ActName ''rectifier''), stack_act_dec = Single ActNone,
      stack_tied_weights = Single False, stack_irange = Single (1 / 1000),
      stack_rng = RngSeed 9001,
      stack_corruptor = PerLayer [None, Some rectifier],
      stack_contracting = PerLayer [True, False],
      stack_solution = Single None, stack_sparse_penalty = Single None,
      stack_sparsity_target = Single None, stack_sparsity_target_penalty = Single None\<rparr>"

definition deferred_stack :: stack_args where
  "deferred_stack =
     \<lparr>stack_nvis = 0, stack_nhids = [1],
      stack_act_enc = Single ActNone, stack_act_dec = Single ActNone,
      stack_tied_weights = Single False, stack_irange = Single (1 / 1000),
      stack_rng = RngSeed 9001,
      stack_corruptor = Single None,
      stack_contracting = Single False,
      stack_solution = Single None, stack_sparse_penalty = Single None,
      stack_sparsity_target = Single None, stack_sparsity_target_penalty = Single None\<rparr>"

text \<open>
  Two states of one object that differ at most in the attributes that \<^verbatim>\<open>reconstruct\<close>
  assigns, \<^verbatim>\<open>hiddens\<close> and \<^verbatim>\<open>regularization\<close>.
\<close>

definition same_model :: "autoencoder \<Rightarrow> autoencoder \<Rightarrow> bool" where
  "same_model self self' =
     (self'\<lparr>self_hiddens := None, self_regularization := 0\<rparr>
        = self\<lparr>self_hiddens := None, self_regularization := 0\<rparr>)"

section \<open>Basic facts\<close>

lemma and_then_Inl [simp]: "and_then (Inl e) f = Inl e"
  by (simp add: and_then_def)

lemma and_then_Inr [simp]: "and_then (Inr x) f = f x"
  by (simp add: and_then_def)

lemma and_then_eq_Inr: "and_then m f = Inr y \<longleftrightarrow> (\<exists>x. m = Inr x \<and> f x = Inr y)"
  by (cases m) simp_all

lemma allocate_simps [simp]:
  "shared_count (allocate x w) = Suc (shared_count w)"
  "shared_values (allocate x w) = (shared_values w)(shared_count w := x)"
  "rng_states (allocate x w) = rng_states w"
  "rng_count (allocate x w) = rng_count w"
  "os_entropy (allocate x w) = os_entropy w"
  by (simp_all add: allocate_def)

lemma set_state_simps [simp]:
  "shared_count (set_state r g w) = shared_count w"
  "shared_values (set_state r g w) = shared_values w"
  "rng_states (set_state r g w) = (rng_states w)(r := g)"
  "rng_count (set_state r g w) = rng_count w"
  "os_entropy (set_state r g w) = os_entropy w"
  by (simp_all add: set_state_def)

lemma add_generator_simps [simp]:
  "shared_count (add_generator g w) = shared_count w"
  "shared_values (add_generator g w) = shared_values w"
  "rng_states (add_generator g w) = (rng_states w)(rng_count w := g)"
  "rng_count (add_generator g w) = Suc (rng_count w)"
  "os_entropy (add_generator g w) = os_entropy w"
  by (simp_all add: add_generator_def)

lemma numpy_zeros_nonneg: "0 \<le> n \<Longrightarrow> numpy_zeros n = Inr (Array1 (replicate (nat n) 0))"
  by (simp add: numpy_zeros_def)

lemma rng_rand_nonneg:
  "0 \<le> n \<Longrightarrow> 0 \<le> k \<Longrightarrow>
   rng_rand lib r n k w =
     Inr (Matrix (nat n) (nat k) (fst (draw_samples (random_sample lib) (nat n * nat k) (rng_states w r))),
          set_state r (snd (draw_samples (random_sample lib) (nat n * nat k) (rng_states w r))) w)"
  by (simp add: rng_rand_def split: prod.splits)

lemma rng_rand_negative: "n < 0 \<or> k < 0 \<Longrightarrow> rng_rand lib r n k w = Inl ValueError"
  by (simp add: rng_rand_def)

lemma rng_randint_eq:
  "rng_randint lib r high w =
     (fst (randint lib high (rng_states w r)), set_state r (snd (randint lib high (rng_states w r))) w)"
  by (simp add: rng_randint_def split: prod.splits)

lemma tuple_truth_pair [simp]: "tuple_truth [a, b]"
  by (simp add: tuple_truth_def)

lemma initialize_hidbias_nonneg:
  "0 \<le> self_nhid self \<Longrightarrow>
   initialize_hidbias w self =
     Inr (self\<lparr>self_hidbias := Some (SharedVariable (shared_count w))\<rparr>,
          allocate (Array1 (replicate (nat (self_nhid self)) 0)) w)"
  by (simp add: initialize_hidbias_def numpy_zeros_nonneg sharedX_def)

lemma initialize_visbias_nonneg:
  "0 \<le> nvis \<Longrightarrow>
   initialize_visbias w self nvis =
     Inr (self\<lparr>self_visbias := Some (SharedVariable (shared_count w))\<rparr>,
          allocate (Array1 (replicate (nat nvis) 0)) w)"
  by (simp add: initialize_visbias_def numpy_zeros_nonneg sharedX_def)

lemma initialize_weights_nonneg:
  "0 \<le> nvis \<Longrightarrow> 0 \<le> self_nhid self \<Longrightarrow>
   initialize_weights lib w self nvis rng irange =
     (let r = (case rng of None \<Rightarrow> self_rng self | Some r' \<Rightarrow> r');
          d = draw_samples (random_sample lib) (nat nvis * nat (self_nhid self)) (rng_states w r)
      in Inr (self\<lparr>self_weights := Some (SharedVariable (shared_count w))\<rparr>,
              allocate (Array2 (half_minus_scaled (Matrix (nat nvis) (nat (self_nhid self)) (fst d))
                                  (self_irange self)))
                (set_state r (snd d) w)))"
  by (simp add: initialize_weights_def rng_rand_nonneg sharedX_def Let_def)

lemma initialize_w_prime_nonneg:
  "0 \<le> nvis \<Longrightarrow> 0 \<le> self_nhid self \<Longrightarrow>
   initialize_w_prime lib w self nvis rng irange =
     (let r = (case rng of None \<Rightarrow> self_rng self | Some r' \<Rightarrow> r');
          ir = (case irange of None \<Rightarrow> self_irange self | Some i \<Rightarrow> i);
          d = draw_samples (random_sample lib) (nat (self_nhid self) * nat nvis) (rng_states w r)
      in Inr (self\<lparr>self_w_prime := Some (SharedVariable (shared_count w))\<rparr>,
              allocate (Array2 (half_minus_scaled (Matrix (nat (self_nhid self)) (nat nvis) (fst d)) ir))
                (set_state r (snd d) w)))"
  by (simp add: initialize_w_prime_def rng_rand_nonneg sharedX_def Let_def)

lemma initialize_w_prime_negative:
  "nvis < 0 \<or> self_nhid self < 0 \<Longrightarrow> initialize_w_prime lib w self nvis rng irange = Inl ValueError"
  by (auto simp: initialize_w_prime_def rng_rand_negative Let_def)

lemma make_rng_seed:
  "make_rng lib w (RngSeed s) = and_then (RandomState lib s) (\<lambda>g. Inr (rng_count w, add_generator g w))"
  by (simp add: make_rng_def)

lemmas init_eval = Autoencoder_init_def new_object_def initialize_hidbias_nonneg rng_randint_eq
          initialize_visbias_nonneg initialize_weights_nonneg initialize_w_prime_nonneg Let_def

subsection \<open>What a successful construction leaves\<close>

lemma Autoencoder_init_Inr:
  assumes ok: "Autoencoder_init lib w c a = Inr (self, w')"
  shows "0 \<le> arg_nvis a \<and> 0 < arg_nhid a \<and> (arg_tied_weights a \<longrightarrow> 0 < arg_nvis a)"
    and "\<exists>w0. make_rng lib w (arg_rng a) = Inr (self_rng self, w0)
           \<and> shared_count w0 = shared_count w \<and> shared_values w0 = shared_values w"
    and "self_class self = c \<and> self_nhid self = arg_nhid a \<and> self_irange self = arg_irange a
         \<and> self_tied_weights self = arg_tied_weights a \<and> self_solution self = arg_solution a
         \<and> self_sparse_penalty self = arg_sparse_penalty a
         \<and> self_sparsity_target self = arg_sparsity_target a
         \<and> self_sparsity_target_penalty self = arg_sparsity_target_penalty a
         \<and> self_regularization self = 0 \<and> self_corruptor self = None \<and> self_hiddens self = None"
    and "resolve_callable lib (arg_act_enc a) = Inr (self_act_enc self)
         \<and> resolve_callable lib (arg_act_dec a) = Inr (self_act_dec self)"
    and "self_hidbias self = Some (SharedVariable (shared_count w))
         \<and> self_visbias self = (if 0 < arg_nvis a then Some (SharedVariable (shared_count w + 1)) else None)
         \<and> self_weights self = (if 0 < arg_nvis a then Some (SharedVariable (shared_count w + 2)) else None)
         \<and> self_w_prime self =
             (if arg_tied_weights a then Some (Transposed (SharedVariable (shared_count w + 2)))
              else Some (SharedVariable (shared_count w + (if 0 < arg_nvis a then 3 else 1))))
         \<and> self_params self =
             [self_visbias self, self_hidbias self, self_weights self]
             @ (if arg_tied_weights a then [] else [self_w_prime self])"
    and "shared_count w' =
           shared_count w + (if 0 < arg_nvis a then 3 else 1) + (if arg_tied_weights a then 0 else 1)"
    and "\<forall>k < shared_count w. shared_values w' k = shared_values w k"
proof -
  have nv: "0 \<le> arg_nvis a" and nh: "0 < arg_nhid a"
    using ok by (auto simp: Autoencoder_init_def split: if_splits)
  obtain r w0 where mk: "make_rng lib w (arg_rng a) = Inr (r, w0)"
    using ok nv nh by (cases "make_rng lib w (arg_rng a)") (auto simp: Autoencoder_init_def)
  have w0: "shared_count w0 = shared_count w \<and> shared_values w0 = shared_values w"
    using mk by (cases "arg_rng a") (auto simp: make_rng_def and_then_eq_Inr)
  have tied: "arg_tied_weights a \<longrightarrow> 0 < arg_nvis a"
    using ok nv nh mk
    by (cases "0 < arg_nvis a")
       (auto simp: Autoencoder_init_def new_object_def initialize_hidbias_nonneg rng_randint_eq)
  obtain enc where enc: "resolve_callable lib (arg_act_enc a) = Inr enc"
    using ok nv nh mk tied
    by (cases "resolve_callable lib (arg_act_enc a)"; cases "0 < arg_nvis a"; cases "arg_tied_weights a")
       (auto simp: Autoencoder_init_def new_object_def initialize_hidbias_nonneg rng_randint_eq
          initialize_visbias_nonneg initialize_weights_nonneg initialize_w_prime_nonneg Let_def)
  obtain dec where dec: "resolve_callable lib (arg_act_dec a) = Inr dec"
    using ok nv nh mk tied enc
    by (cases "resolve_callable lib (arg_act_dec a)"; cases "0 < arg_nvis a"; cases "arg_tied_weights a")
       (auto simp: Autoencoder_init_def new_object_def initialize_hidbias_nonneg rng_randint_eq
          initialize_visbias_nonneg initialize_weights_nonneg initialize_w_prime_nonneg Let_def)
  note facts = nv nh mk tied enc dec
  note ev = Autoencoder_init_def new_object_def initialize_hidbias_nonneg rng_randint_eq
          initialize_visbias_nonneg initialize_weights_nonneg initialize_w_prime_nonneg Let_def
  show "0 \<le> arg_nvis a \<and> 0 < arg_nhid a \<and> (arg_tied_weights a \<longrightarrow> 0 < arg_nvis a)"
    using nv nh tied by simp
  have r: "self_rng self = r"
    using ok facts by (cases "0 < arg_nvis a"; cases "arg_tied_weights a") (auto simp: ev)
  show "\<exists>w0. make_rng lib w (arg_rng a) = Inr (self_rng self, w0)
           \<and> shared_count w0 = shared_count w \<and> shared_values w0 = shared_values w"
    using mk w0 r by auto
  show "self_class self = c \<and> self_nhid self = arg_nhid a \<and> self_irange self = arg_irange a
         \<and> self_tied_weights self = arg_tied_weights a \<and> self_solution self = arg_solution a
         \<and> self_sparse_penalty self = arg_sparse_penalty a
         \<and> self_sparsity_target self = arg_sparsity_target a
         \<and> self_sparsity_target_penalty self = arg_sparsity_target_penalty a
         \<and> self_regularization self = 0 \<and> self_corruptor self = None \<and> self_hiddens self = None"
    using ok facts by (cases "0 < arg_nvis a"; cases "arg_tied_weights a") (auto simp: ev)
  show "resolve_callable lib (arg_act_enc a) = Inr (self_act_enc self)
         \<and> resolve_callable lib (arg_act_dec a) = Inr (self_act_dec self)"
    using ok facts by (cases "0 < arg_nvis a"; cases "arg_tied_weights a") (auto simp: ev)
  show "self_hidbias self = Some (SharedVariable (shared_count w))
         \<and> self_visbias self = (if 0 < arg_nvis a then Some (SharedVariable (shared_count w + 1)) else None)
         \<and> self_weights self = (if 0 < arg_nvis a then Some (SharedVariable (shared_count w + 2)) else None)
         \<and> self_w_prime self =
             (if arg_tied_weights a then Some (Transposed (SharedVariable (shared_count w + 2)))
              else Some (SharedVariable (shared_count w + (if 0 < arg_nvis a then 3 else 1))))
         \<and> self_params self =
             [self_visbias self, self_hidbias self, self_weights self]
             @ (if arg_tied_weights a then [] else [self_w_prime self])"
    using ok facts w0 by (cases "0 < arg_nvis a"; cases "arg_tied_weights a") (auto simp: ev)
  show "shared_count w' =
           shared_count w + (if 0 < arg_nvis a then 3 else 1) + (if arg_tied_weights a then 0 else 1)"
    using ok facts w0 by (cases "0 < arg_nvis a"; cases "arg_tied_weights a") (auto simp: ev)
  show "\<forall>k < shared_count w. shared_values w' k = shared_values w k"
    using ok facts w0 by (cases "0 < arg_nvis a"; cases "arg_tied_weights a") (auto simp: ev)
qed

subsection \<open>Seeded construction\<close>

lemma seeded_init_world_independent:
  "map_sum id (\<lambda>(self, w'). parameter_values w' self) (Autoencoder_init lib w1 c (a\<lparr>arg_rng := RngSeed s\<rparr>))
   = map_sum id (\<lambda>(self, w'). parameter_values w' self) (Autoencoder_init lib w2 c (a\<lparr>arg_rng := RngSeed s\<rparr>))"
proof (cases "0 \<le> arg_nvis a \<and> 0 < arg_nhid a")
  case False
  then show ?thesis by (auto simp: Autoencoder_init_def)
next
  case dims: True
  show ?thesis
  proof (cases "RandomState lib s")
    case (Inl e)
    with dims show ?thesis by (simp add: Autoencoder_init_def make_rng_seed)
  next
    case g: (Inr g)
    show ?thesis
    proof (cases "resolve_callable lib (arg_act_enc a)")
      case (Inl e)
      with dims g show ?thesis
        by (cases "0 < arg_nvis a"; cases "arg_tied_weights a")
           (simp_all add: init_eval make_rng_seed)
    next
      case enc: (Inr enc)
      show ?thesis
      proof (cases "resolve_callable lib (arg_act_dec a)")
        case (Inl e)
        with dims g enc show ?thesis
          by (cases "0 < arg_nvis a"; cases "arg_tied_weights a")
             (simp_all add: init_eval make_rng_seed)
      next
        case dec: (Inr dec)
        with dims g enc show ?thesis
          by (cases "0 < arg_nvis a"; cases "arg_tied_weights a")
             (simp_all add: init_eval make_rng_seed parameter_values_def)
      qed
    qed
  qed
qed

subsection \<open>The initial values\<close>

lemma length_draw_samples [simp]: "length (fst (draw_samples f n g)) = n"
  by (induction n arbitrary: g) (simp_all add: split_beta)

lemma draw_samples_unit_interval:
  "unit_interval_draws lib \<Longrightarrow> x \<in> set (fst (draw_samples (random_sample lib) n g)) \<Longrightarrow> 0 \<le> x \<and> x < 1"
proof (induction n arbitrary: g)
  case 0
  then show ?case by simp
next
  case (Suc n)
  obtain y g' where y: "random_sample lib g = (y, g')" by (cases "random_sample lib g")
  obtain ys g'' where ys: "draw_samples (random_sample lib) n g' = (ys, g'')"
    by (cases "draw_samples (random_sample lib) n g'")
  from Suc.prems(2) y ys have "x = y \<or> x \<in> set (fst (draw_samples (random_sample lib) n g'))"
    by auto
  then show ?case
  proof
    assume "x = y"
    with Suc.prems(1) y show ?thesis
      unfolding unit_interval_draws_def by (metis fst_conv)
  next
    assume "x \<in> set (fst (draw_samples (random_sample lib) n g'))"
    with Suc.IH Suc.prems(1) show ?thesis by blast
  qed
qed

lemma counting_library_unit_interval: "unit_interval_draws counting_library"
  by (simp add: unit_interval_draws_def counting_library_def)

lemma Autoencoder_init_values:
  assumes ok: "Autoencoder_init lib w c a = Inr (self, w')"
  shows "shared_values w' (shared_count w) = Array1 (replicate (nat (arg_nhid a)) 0)"
    and "0 < arg_nvis a \<Longrightarrow>
           shared_values w' (shared_count w + 1) = Array1 (replicate (nat (arg_nvis a)) 0)"
    and "0 < arg_nvis a \<Longrightarrow>
           \<exists>g. shared_values w' (shared_count w + 2) =
             Array2 (half_minus_scaled
               (Matrix (nat (arg_nvis a)) (nat (arg_nhid a))
                  (fst (draw_samples (random_sample lib) (nat (arg_nvis a) * nat (arg_nhid a)) g)))
               (arg_irange a))"
    and "\<not> arg_tied_weights a \<Longrightarrow>
           \<exists>g. shared_values w' (shared_count w + (if 0 < arg_nvis a then 3 else 1)) =
             Array2 (half_minus_scaled
               (Matrix (nat (arg_nhid a)) (nat (arg_nvis a))
                  (fst (draw_samples (random_sample lib) (nat (arg_nhid a) * nat (arg_nvis a)) g)))
               (arg_irange a))"
proof -
  from Autoencoder_init_Inr(1)[OF ok]
  have nv: "0 \<le> arg_nvis a" and nh: "0 < arg_nhid a" and tied: "arg_tied_weights a \<longrightarrow> 0 < arg_nvis a"
    by simp_all
  from Autoencoder_init_Inr(2)[OF ok] obtain w0
    where mk: "make_rng lib w (arg_rng a) = Inr (self_rng self, w0)"
      and w0: "shared_count w0 = shared_count w" "shared_values w0 = shared_values w"
    by blast
  from Autoencoder_init_Inr(4)[OF ok]
  have enc: "resolve_callable lib (arg_act_enc a) = Inr (self_act_enc self)"
    and dec: "resolve_callable lib (arg_act_dec a) = Inr (self_act_dec self)" by simp_all
  note facts = nv nh mk tied enc dec w0
  show "shared_values w' (shared_count w) = Array1 (replicate (nat (arg_nhid a)) 0)"
    using ok facts by (cases "0 < arg_nvis a"; cases "arg_tied_weights a") (auto simp: init_eval)
  show "shared_values w' (shared_count w + 1) = Array1 (replicate (nat (arg_nvis a)) 0)"
    if "0 < arg_nvis a"
    using ok facts that by (cases "arg_tied_weights a") (auto simp: init_eval)
  show "\<exists>g. shared_values w' (shared_count w + 2) =
             Array2 (half_minus_scaled
               (Matrix (nat (arg_nvis a)) (nat (arg_nhid a))
                  (fst (draw_samples (random_sample lib) (nat (arg_nvis a) * nat (arg_nhid a)) g)))
               (arg_irange a))"
    if "0 < arg_nvis a"
    using ok facts that by (cases "arg_tied_weights a") (auto simp: init_eval)
  show "\<exists>g. shared_values w' (shared_count w + (if 0 < arg_nvis a then 3 else 1)) =
             Array2 (half_minus_scaled
               (Matrix (nat (arg_nhid a)) (nat (arg_nvis a))
                  (fst (draw_samples (random_sample lib) (nat (arg_nhid a) * nat (arg_nvis a)) g)))
               (arg_irange a))"
    if "\<not> arg_tied_weights a"
    using ok facts that by (cases "0 < arg_nvis a") (auto simp: init_eval)
qed

subsection \<open>Running the model on the small instance\<close>

lemmas run_eval = Autoencoder_def init_eval make_rng_seed counting_library_def empty_world_def
  resolve_callable_def Autoencoder_reconstruct_def Autoencoder_reconstruct_tensor_def encode_def
  hidden_activation_def hidden_input_def dot_def add_rowwise_def compute_regularization_def
  compute_penalty_value_def half_minus_scaled_def reconstruct_tensor_def

lemma sqr_construction:
  "Autoencoder counting_library empty_world sqr_args = Inr (projr (Autoencoder counting_library empty_world sqr_args))"
  by (simp add: run_eval sqr_args_def)

lemma half_minus_scaled_off_centre:
  fixes x ir :: real
  assumes "0 \<le> x" "x < 1" "0 < ir" "ir \<le> 1 / 3"
  shows "ir / 2 < 1 / 2 - x * ir" "1 / 2 - x * ir \<le> 1 / 2"
proof -
  from assms have "x * ir < ir" by simp
  with assms show "ir / 2 < 1 / 2 - x * ir" by linarith
  from assms have "0 \<le> x * ir" by simp
  then show "1 / 2 - x * ir \<le> 1 / 2" by simp
qed

lemma default_construction:
  "Autoencoder counting_library empty_world default_args
     = Inr (projr (Autoencoder counting_library empty_world default_args))"
  by (simp add: run_eval default_args_def numeral_2_eq_2)

subsection \<open>The transpose\<close>

lemma entry_matrix_T:
  assumes "well_shaped m" "i < nrows m" "j < ncols m"
  shows "entry (matrix_T m) j i = entry m i j"
proof -
  have "j * nrows m + i < ncols m * nrows m"
  proof -
    have "j * nrows m + i < j * nrows m + nrows m" using assms(2) by simp
    also have "\<dots> = Suc j * nrows m" by simp
    also have "\<dots> \<le> ncols m * nrows m" using assms(3) by (intro mult_le_mono1) simp
    finally show ?thesis .
  qed
  moreover have "(j * nrows m + i) mod nrows m = i" using assms(2) by simp
  moreover have "(j * nrows m + i) div nrows m = j" using assms(2) by simp
  ultimately show ?thesis by (simp add: entry_def matrix_T_def)
qed

lemma tied_construction:
  "Autoencoder counting_library empty_world tied_args
     = Inr (projr (Autoencoder counting_library empty_world tied_args))"
  by (simp add: run_eval tied_args_def numeral_2_eq_2)

subsection \<open>The layers of a stack\<close>

lemma world_extends_refl [simp]: "world_extends w w"
  by (simp add: world_extends_def)

lemma world_extends_trans: "world_extends w1 w2 \<Longrightarrow> world_extends w2 w3 \<Longrightarrow> world_extends w1 w3"
  by (auto simp: world_extends_def)

lemma Autoencoder_init_extends:
  "Autoencoder_init lib w c a = Inr (self, w') \<Longrightarrow> world_extends w w'"
  using Autoencoder_init_Inr(6,7)[of lib w c a self w'] by (auto simp: world_extends_def)

lemma build_layer_both [simp]:
  "build_layer lib w r (nhid, nvis, act_enc, act_dec, Some c, True, rest) = Inl ValueError"
  by (cases rest) (simp add: Let_def)

lemma build_layer_Inr:
  assumes "build_layer lib w r
             (nhid, nvis, act_enc, act_dec, corr, cae, tied, ir, sol, sp, st, stp) = Inr (ae, w')"
  shows "\<not> (cae \<and> corr \<noteq> None)"
    and "\<exists>ae0. Autoencoder_init lib w (layer_class cae corr)
                 \<lparr>arg_nvis = nvis, arg_nhid = nhid, arg_act_enc = act_enc,
                  arg_act_dec = act_dec, arg_tied_weights = tied, arg_solution = sol,
                  arg_sparse_penalty = sp, arg_sparsity_target = st,
                  arg_sparsity_target_penalty = stp, arg_irange = ir,
                  arg_rng = RngObject r\<rparr> = Inr (ae0, w')
               \<and> ae = ae0\<lparr>self_corruptor := corr\<rparr>"
proof -
  show both: "\<not> (cae \<and> corr \<noteq> None)"
    using assms by (auto simp: Let_def split: if_splits)
  let ?args = "\<lparr>arg_nvis = nvis, arg_nhid = nhid, arg_act_enc = act_enc,
                  arg_act_dec = act_dec, arg_tied_weights = tied, arg_solution = sol,
                  arg_sparse_penalty = sp, arg_sparsity_target = st,
                  arg_sparsity_target_penalty = stp, arg_irange = ir,
                  arg_rng = RngObject r\<rparr>"
  show "\<exists>ae0. Autoencoder_init lib w (layer_class cae corr) ?args = Inr (ae0, w')
               \<and> ae = ae0\<lparr>self_corruptor := corr\<rparr>"
  proof (cases cae)
    case True
    with both have none: "corr = None" by simp
    from assms True none have "ContractingAutoencoder lib w ?args = Inr (ae, w')"
      by (simp add: Let_def)
    then have init: "Autoencoder_init lib w ContractingAutoencoder_class ?args = Inr (ae, w')"
      by (auto simp: ContractingAutoencoder_def and_then_eq_Inr split: option.splits if_splits)
    from Autoencoder_init_Inr(3)[OF init] have "self_corruptor ae = None" by simp
    then have "ae = ae\<lparr>self_corruptor := None\<rparr>" by simp
    with init True none show ?thesis by (auto simp: layer_class_def)
  next
    case False
    show ?thesis
    proof (cases corr)
      case None
      with assms False have init: "Autoencoder_init lib w Autoencoder_class ?args = Inr (ae, w')"
        by (simp add: Autoencoder_def Let_def)
      from Autoencoder_init_Inr(3)[OF init] have "self_corruptor ae = None" by simp
      then have "ae = ae\<lparr>self_corruptor := None\<rparr>" by simp
      with init False None show ?thesis by (auto simp: layer_class_def)
    next
      case (Some c)
      with assms False have "DenoisingAutoencoder lib w c ?args = Inr (ae, w')"
        by (simp add: Let_def)
      then obtain ae0 where "Autoencoder_init lib w DenoisingAutoencoder_class ?args = Inr (ae0, w')"
        and "ae = ae0\<lparr>self_corruptor := Some c\<rparr>"
        by (auto simp: DenoisingAutoencoder_def and_then_eq_Inr)
      with False Some show ?thesis by (auto simp: layer_class_def)
    qed
  qed
qed

lemma build_layer_extends:
  assumes "build_layer lib w r spec = Inr (ae, w')"
  shows "world_extends w w'"
proof -
  obtain nhid nvis act_enc act_dec corr cae tied ir sol sp st stp
    where spec: "spec = (nhid, nvis, act_enc, act_dec, corr, cae, tied, ir, sol, sp, st, stp)"
    by (metis prod_cases3)
  from build_layer_Inr(2)[OF assms[unfolded spec]] Autoencoder_init_extends
  show ?thesis by blast
qed

lemma build_layers_Inr:
  "build_layers lib w r specs = Inr (layers, w') \<Longrightarrow>
     length layers = length specs \<and> world_extends w w'
     \<and> (\<forall>i < length specs. \<exists>wi wi'. build_layer lib wi r (specs ! i) = Inr (layers ! i, wi')
            \<and> world_extends wi' w')"
proof (induction specs arbitrary: w layers)
  case Nil
  then show ?case by simp
next
  case (Cons s ss)
  from Cons.prems obtain ae w1 ls where
    first: "build_layer lib w r s = Inr (ae, w1)"
    and rest: "build_layers lib w1 r ss = Inr (ls, w')"
    and layers: "layers = ae # ls"
    by (auto simp: and_then_eq_Inr)
  from Cons.IH[OF rest] have
    len: "length ls = length ss" and ext: "world_extends w1 w'"
    and each: "\<forall>i < length ss. \<exists>wi wi'. build_layer lib wi r (ss ! i) = Inr (ls ! i, wi')
            \<and> world_extends wi' w'"
    by simp_all
  have "\<exists>wi wi'. build_layer lib wi r ((s # ss) ! i) = Inr (layers ! i, wi') \<and> world_extends wi' w'"
    if "i < length (s # ss)" for i
  proof (cases i)
    case 0
    with first ext layers show ?thesis by auto
  next
    case (Suc j)
    with that each layers show ?thesis by auto
  qed
  moreover from build_layer_extends[OF first] ext have "world_extends w w'"
    by (rule world_extends_trans)
  ultimately show ?case using len layers by simp
qed

lemma broadcast_length: "broadcast n h = Inr xs \<Longrightarrow> length xs = n"
  by (cases h) (auto simp: broadcast_def split: if_splits)

lemma layer_observations_corruptor [simp]:
  "layer_shape w (self\<lparr>self_corruptor := c\<rparr>) = layer_shape w self"
  "layer_ready w (self\<lparr>self_corruptor := c\<rparr>) nv nh = layer_ready w self nv nh"
  by (simp_all add: layer_shape_def layer_ready_def)

lemma layer_facts:
  assumes init: "Autoencoder_init lib wi c args = Inr (ae0, wi')"
    and ext: "world_extends wi' w'"
  shows "self_nhid ae0 = arg_nhid args \<and> 0 < arg_nhid args \<and> 0 \<le> arg_nvis args
           \<and> self_class ae0 = c"
    and "layer_shape w' ae0 =
           (if 0 < arg_nvis args then Some (nat (arg_nvis args), nat (arg_nhid args)) else None)"
    and "0 < arg_nvis args \<Longrightarrow> layer_ready w' ae0 (nat (arg_nvis args)) (nat (arg_nhid args))"
proof -
  note f1 = Autoencoder_init_Inr(1)[OF init] and f3 = Autoencoder_init_Inr(3)[OF init]
    and f5 = Autoencoder_init_Inr(5)[OF init] and f6 = Autoencoder_init_Inr(6)[OF init]
  show "self_nhid ae0 = arg_nhid args \<and> 0 < arg_nhid args \<and> 0 \<le> arg_nvis args
           \<and> self_class ae0 = c"
    using f1 f3 by simp
  have keep: "shared_values w' k = shared_values wi' k" if "k < shared_count wi'" for k
    using ext that by (simp add: world_extends_def)
  have hb: "shared_values w' (shared_count wi) = Array1 (replicate (nat (arg_nhid args)) 0)"
    using keep[of "shared_count wi"] f6 Autoencoder_init_values(1)[OF init] by simp
  have W: "\<exists>xs. shared_values w' (shared_count wi + 2)
                  = Array2 (Matrix (nat (arg_nvis args)) (nat (arg_nhid args)) xs)"
    if "0 < arg_nvis args"
    using keep[of "shared_count wi + 2"] f6 Autoencoder_init_values(3)[OF init that] that
    by (auto simp: half_minus_scaled_def)
  show "layer_shape w' ae0 =
           (if 0 < arg_nvis args then Some (nat (arg_nvis args), nat (arg_nhid args)) else None)"
    using f5 W by (auto simp: layer_shape_def)
  show "layer_ready w' ae0 (nat (arg_nvis args)) (nat (arg_nhid args))" if "0 < arg_nvis args"
    using f5 W[OF that] hb that by (auto simp: layer_ready_def)
qed

lemma encode_ready:
  assumes "layer_ready w self nv nh" "shape_preserving (self_act_enc self)" "ncols x = nv"
  shows "\<exists>y. encode w self (Tensor x) = Inr (Tensor y) \<and> nrows y = nrows x \<and> ncols y = nh"
proof -
  from assms(1) obtain hb W b m where
    p: "self_hidbias self = Some hb" "self_weights self = Some W"
       "get_value w hb = Array1 b" "length b = nh"
       "get_value w W = Array2 m" "nrows m = nv" "ncols m = nh"
    unfolding layer_ready_def by blast
  from p assms(3) obtain z where
    z: "hidden_input w self x = Inr z" "nrows z = nrows x" "ncols z = nh"
    by (simp add: hidden_input_def dot_def add_rowwise_def)
  show ?thesis
  proof (cases "self_act_enc self")
    case None
    with z show ?thesis by (simp add: encode_def hidden_activation_def)
  next
    case (Some f)
    with assms(2) have "nrows (f z) = nrows z \<and> ncols (f z) = ncols z"
      by (simp add: shape_preserving_def)
    with Some z show ?thesis by (simp add: encode_def hidden_activation_def)
  qed
qed

lemma stack_encode_widths:
  "length layers = length nhs \<Longrightarrow>
   \<forall>i < length nhs. layer_ready w (layers ! i) ((nv # butlast nhs) ! i) (nhs ! i)
                      \<and> shape_preserving (self_act_enc (layers ! i)) \<Longrightarrow>
   ncols x = nv \<Longrightarrow>
   \<exists>y. stack_encode w layers (Tensor x) = Inr (Tensor y) \<and> nrows y = nrows x
        \<and> ncols y = last (nv # nhs)"
proof (induction layers arbitrary: nhs nv x)
  case Nil
  then show ?case by simp
next
  case (Cons l ls)
  then obtain h hs where nhs: "nhs = h # hs" by (cases nhs) auto
  from Cons.prems(2) nhs have "layer_ready w l nv h" "shape_preserving (self_act_enc l)"
    by auto
  from encode_ready[OF this Cons.prems(3)] obtain y where
    y: "encode w l (Tensor x) = Inr (Tensor y)" "nrows y = nrows x" "ncols y = h" by blast
  have len: "length ls = length hs" using Cons.prems(1) nhs by simp
  have each: "\<forall>i < length hs. layer_ready w (ls ! i) ((h # butlast hs) ! i) (hs ! i)
                      \<and> shape_preserving (self_act_enc (ls ! i))"
  proof (intro allI impI)
    fix i assume i: "i < length hs"
    then have "hs \<noteq> []" by auto
    then have "(nv # butlast nhs) ! Suc i = (h # butlast hs) ! i" by (simp add: nhs)
    moreover from Cons.prems(2) i nhs
    have "layer_ready w ((l # ls) ! Suc i) ((nv # butlast nhs) ! Suc i) (nhs ! Suc i)
          \<and> shape_preserving (self_act_enc ((l # ls) ! Suc i))"
      by (metis Suc_less_eq length_Cons)
    ultimately show "layer_ready w (ls ! i) ((h # butlast hs) ! i) (hs ! i)
                      \<and> shape_preserving (self_act_enc (ls ! i))"
      by (simp add: nhs)
  qed
  from Cons.IH[OF len each y(3)] obtain y' where
    "stack_encode w ls (Tensor y) = Inr (Tensor y')" "nrows y' = nrows y"
    "ncols y' = last (h # hs)" by blast
  with y nhs show ?case by simp
qed

lemma build_stacked_ae_Inr:
  assumes "build_stacked_ae lib w a = Inr (layers, w')"
  shows "\<exists>r w0 corrs caes encs decs tieds irs sols sps sts stps.
           broadcast (length (stack_nhids a)) (stack_corruptor a) = Inr corrs
         \<and> broadcast (length (stack_nhids a)) (stack_contracting a) = Inr caes
         \<and> length corrs = length (stack_nhids a) \<and> length caes = length (stack_nhids a)
         \<and> length encs = length (stack_nhids a) \<and> length decs = length (stack_nhids a)
         \<and> length tieds = length (stack_nhids a) \<and> length irs = length (stack_nhids a)
         \<and> length sols = length (stack_nhids a) \<and> length sps = length (stack_nhids a)
         \<and> length sts = length (stack_nhids a) \<and> length stps = length (stack_nhids a)
         \<and> build_layers lib w0 r
              (zip (stack_nhids a) (zip (stack_nvis a # butlast (stack_nhids a)) (zip encs (zip decs
               (zip corrs (zip caes (zip tieds (zip irs (zip sols (zip sps (zip sts stps)))))))))))
             = Inr (layers, w')"
proof -
  from assms obtain r w0 corrs caes encs decs tieds irs sols sps sts stps where
    b: "broadcast (length (stack_nhids a)) (stack_corruptor a) = Inr corrs"
       "broadcast (length (stack_nhids a)) (stack_contracting a) = Inr caes"
       "broadcast (length (stack_nhids a)) (stack_act_enc a) = Inr encs"
       "broadcast (length (stack_nhids a)) (stack_act_dec a) = Inr decs"
       "broadcast (length (stack_nhids a)) (stack_tied_weights a) = Inr tieds"
       "broadcast (length (stack_nhids a)) (stack_irange a) = Inr irs"
       "broadcast (length (stack_nhids a)) (stack_solution a) = Inr sols"
       "broadcast (length (stack_nhids a)) (stack_sparse_penalty a) = Inr sps"
       "broadcast (length (stack_nhids a)) (stack_sparsity_target a) = Inr sts"
       "broadcast (length (stack_nhids a)) (stack_sparsity_target_penalty a) = Inr stps"
    and layers: "build_layers lib w0 r
              (zip (stack_nhids a) (zip (stack_nvis a # butlast (stack_nhids a)) (zip encs (zip decs
               (zip corrs (zip caes (zip tieds (zip irs (zip sols (zip sps (zip sts stps)))))))))))
             = Inr (layers, w')"
    unfolding build_stacked_ae_def Let_def by (auto simp: and_then_eq_Inr)
  note len = b[THEN broadcast_length]
  show ?thesis
    using b(1,2) len layers by (intro exI conjI) assumption+
qed

lemma stack_layers_built:
  assumes ok: "build_stacked_ae lib w a = Inr (layers, w')"
  shows "\<exists>corrs caes.
           broadcast (length (stack_nhids a)) (stack_corruptor a) = Inr corrs
         \<and> broadcast (length (stack_nhids a)) (stack_contracting a) = Inr caes
         \<and> length layers = length (stack_nhids a)
         \<and> (\<forall>i < length (stack_nhids a).
               \<not> (caes ! i \<and> corrs ! i \<noteq> None)
             \<and> (\<exists>wi wi' ae0 args.
                   Autoencoder_init lib wi (layer_class (caes ! i) (corrs ! i)) args = Inr (ae0, wi')
                 \<and> world_extends wi' w'
                 \<and> layers ! i = ae0\<lparr>self_corruptor := corrs ! i\<rparr>
                 \<and> arg_nvis args = (stack_nvis a # butlast (stack_nhids a)) ! i
                 \<and> arg_nhid args = stack_nhids a ! i))"
proof -
  let ?n = "length (stack_nhids a)"
  from build_stacked_ae_Inr[OF ok] obtain r w0 corrs caes encs decs tieds irs sols sps sts stps
    where b: "broadcast ?n (stack_corruptor a) = Inr corrs"
             "broadcast ?n (stack_contracting a) = Inr caes"
      and len: "length corrs = ?n" "length caes = ?n" "length encs = ?n" "length decs = ?n"
               "length tieds = ?n" "length irs = ?n" "length sols = ?n" "length sps = ?n"
               "length sts = ?n" "length stps = ?n"
      and built: "build_layers lib w0 r
              (zip (stack_nhids a) (zip (stack_nvis a # butlast (stack_nhids a)) (zip encs (zip decs
               (zip corrs (zip caes (zip tieds (zip irs (zip sols (zip sps (zip sts stps)))))))))))
             = Inr (layers, w')"
    by blast
  define seq where "seq = zip (stack_nhids a) (zip (stack_nvis a # butlast (stack_nhids a)) (zip encs (zip decs
               (zip corrs (zip caes (zip tieds (zip irs (zip sols (zip sps (zip sts stps))))))))))"
  have lseq: "length seq = ?n" using len by (simp add: seq_def)
  have nth: "seq ! i = (stack_nhids a ! i, (stack_nvis a # butlast (stack_nhids a)) ! i, encs ! i,
                        decs ! i, corrs ! i, caes ! i, tieds ! i, irs ! i, sols ! i, sps ! i,
                        sts ! i, stps ! i)" if "i < ?n" for i
    using that len by (simp add: seq_def)
  from build_layers_Inr[OF built[folded seq_def]] lseq
  have ll: "length layers = ?n"
    and each: "\<forall>i < ?n. \<exists>wi wi'. build_layer lib wi r (seq ! i) = Inr (layers ! i, wi')
                          \<and> world_extends wi' w'"
    by simp_all
  have "\<not> (caes ! i \<and> corrs ! i \<noteq> None)
        \<and> (\<exists>wi wi' ae0 args.
              Autoencoder_init lib wi (layer_class (caes ! i) (corrs ! i)) args = Inr (ae0, wi')
            \<and> world_extends wi' w'
            \<and> layers ! i = ae0\<lparr>self_corruptor := corrs ! i\<rparr>
            \<and> arg_nvis args = (stack_nvis a # butlast (stack_nhids a)) ! i
            \<and> arg_nhid args = stack_nhids a ! i)" if i: "i < ?n" for i
  proof -
    from each i obtain wi wi' where
      bl: "build_layer lib wi r (seq ! i) = Inr (layers ! i, wi')" and ext: "world_extends wi' w'"
      by blast
    note bl' = bl[unfolded nth[OF i]]
    from build_layer_Inr(1)[OF bl'] have no: "\<not> (caes ! i \<and> corrs ! i \<noteq> None)" .
    define args where "args =
         \<lparr>arg_nvis = (stack_nvis a # butlast (stack_nhids a)) ! i, arg_nhid = stack_nhids a ! i,
          arg_act_enc = encs ! i, arg_act_dec = decs ! i, arg_tied_weights = tieds ! i,
          arg_solution = sols ! i, arg_sparse_penalty = sps ! i, arg_sparsity_target = sts ! i,
          arg_sparsity_target_penalty = stps ! i, arg_irange = irs ! i,
          arg_rng = RngObject r\<rparr>"
    have a: "arg_nvis args = (stack_nvis a # butlast (stack_nhids a)) ! i"
            "arg_nhid args = stack_nhids a ! i"
      by (simp_all add: args_def)
    from build_layer_Inr(2)[OF bl', folded args_def] obtain ae0 where
      "Autoencoder_init lib wi (layer_class (caes ! i) (corrs ! i)) args = Inr (ae0, wi')"
      and "layers ! i = ae0\<lparr>self_corruptor := corrs ! i\<rparr>"
      by blast
    with ext no a show ?thesis by blast
  qed
  with b ll show ?thesis by blast
qed

lemmas stack_eval = build_stacked_ae_def broadcast_def ContractingAutoencoder_def
  DenoisingAutoencoder_def rectifier_def make_rng_def numeral_2_eq_2

lemma demo_stack_built:
  "build_stacked_ae counting_library empty_world demo_stack
     = Inr (projr (build_stacked_ae counting_library empty_world demo_stack))"
  by (simp add: run_eval stack_eval demo_stack_def)

lemma demo_stack_acts:
  "map self_act_enc (fst (projr (build_stacked_ae counting_library empty_world demo_stack)))
     = [Some rectifier, Some rectifier]"
  by (simp add: run_eval stack_eval demo_stack_def)

lemma shape_preserving_rectifier: "shape_preserving (Some rectifier)"
  by (simp add: shape_preserving_def rectifier_def)

subsection \<open>What holds beside the defects\<close>

text \<open>
  The biases start at zero. A contracting autoencoder with a callable activation is
  constructed exactly when the base constructor succeeds and \<^verbatim>\<open>is_pure_elemwise\<close> accepts
  the activation, and raises ValueError when it does not. With untied weights, construction
  with \<open>nvis = 0\<close> succeeds and leaves the weights and the visible bias unallocated;
  \<^verbatim>\<open>set_visible_size\<close> then allocates them, after which the object encodes inputs of that
  width and a second \<^verbatim>\<open>set_visible_size\<close> raises ValueError.
\<close>

lemma initial_biases_zero:
  assumes "Autoencoder lib w a = Inr (self, w')"
  shows "\<exists>hb. self_hidbias self = Some hb
              \<and> get_value w' hb = Array1 (replicate (nat (arg_nhid a)) 0)"
    and "0 < arg_nvis a \<Longrightarrow>
           \<exists>vb. self_visbias self = Some vb
              \<and> get_value w' vb = Array1 (replicate (nat (arg_nvis a)) 0)"
proof -
  from assms have ok: "Autoencoder_init lib w Autoencoder_class a = Inr (self, w')"
    by (simp add: Autoencoder_def)
  from Autoencoder_init_Inr(5)[OF ok] Autoencoder_init_values(1)[OF ok]
  show "\<exists>hb. self_hidbias self = Some hb
              \<and> get_value w' hb = Array1 (replicate (nat (arg_nhid a)) 0)"
    by simp
  show "\<exists>vb. self_visbias self = Some vb
              \<and> get_value w' vb = Array1 (replicate (nat (arg_nvis a)) 0)" if "0 < arg_nvis a"
    using Autoencoder_init_Inr(5)[OF ok] Autoencoder_init_values(2)[OF ok that] that by simp
qed

lemma contracting_callable:
  "ContractingAutoencoder lib w (a\<lparr>arg_act_enc := ActCallable f\<rparr>)
     = (case Autoencoder_init lib w ContractingAutoencoder_class (a\<lparr>arg_act_enc := ActCallable f\<rparr>) of
          Inl e \<Rightarrow> Inl e
        | Inr ok \<Rightarrow> if is_pure_elemwise lib f then Inr ok else Inl ValueError)"
proof (cases "Autoencoder_init lib w ContractingAutoencoder_class (a\<lparr>arg_act_enc := ActCallable f\<rparr>)")
  case (Inl e)
  then show ?thesis by (simp add: ContractingAutoencoder_def)
next
  case (Inr ok)
  obtain self w' where ok: "ok = (self, w')" by (cases ok)
  from Inr ok Autoencoder_init_Inr(4)[of lib w ContractingAutoencoder_class
         "a\<lparr>arg_act_enc := ActCallable f\<rparr>" self w']
  have "self_act_enc self = Some f" by (simp add: resolve_callable_def)
  with Inr ok show ?thesis by (simp add: ContractingAutoencoder_def)
qed

lemma deferred_untied_construction:
  assumes "0 < arg_nhid a" "make_rng lib w (arg_rng a) = Inr (r, w0)"
    "resolve_callable lib (arg_act_enc a) = Inr enc" "resolve_callable lib (arg_act_dec a) = Inr dec"
  shows "\<exists>self w'. Autoencoder lib w (a\<lparr>arg_nvis := 0, arg_tied_weights := False\<rparr>) = Inr (self, w')
           \<and> self_weights self = None \<and> self_visbias self = None
           \<and> self_hidbias self = Some (SharedVariable (shared_count w0))
           \<and> shared_values w' (shared_count w0) = Array1 (replicate (nat (arg_nhid a)) 0)
           \<and> shared_count w0 < shared_count w' \<and> self_nhid self = arg_nhid a
           \<and> \<not> self_tied_weights self \<and> self_act_enc self = enc"
  using assms by (simp add: Autoencoder_def init_eval)

lemma set_visible_size_Inr:
  assumes ok: "set_visible_size lib w self nvis rng = Inr (self', w')"
    and hb: "self_hidbias self = Some (SharedVariable k)" "k < shared_count w"
      "shared_values w k = Array1 b" "length b = nat (self_nhid self)"
  shows "self_weights self' \<noteq> None"
    and "layer_ready w' self' (nat nvis) (nat (self_nhid self))"
    and "self_act_enc self' = self_act_enc self"
proof -
  from ok have none: "self_weights self = None"
    by (auto simp: set_visible_size_def split: if_splits)
  have nv: "0 \<le> nvis"
  proof (rule ccontr)
    assume "\<not> 0 \<le> nvis"
    then have "numpy_zeros nvis = Inl ValueError" by (simp add: numpy_zeros_def)
    with ok none show False
      by (simp add: set_visible_size_def initialize_visbias_def Let_def)
  qed
  have nh: "0 \<le> self_nhid self"
  proof (rule ccontr)
    assume "\<not> 0 \<le> self_nhid self"
    then have "rng_rand lib r nvis (self_nhid self) w1 = Inl ValueError" for r and w1 :: "'a world"
      by (simp add: rng_rand_negative)
    with ok none nv show False
      by (cases rng)
         (simp_all add: set_visible_size_def initialize_visbias_nonneg initialize_weights_def Let_def)
  qed
  note ev = set_visible_size_def initialize_visbias_nonneg initialize_weights_nonneg
    initialize_w_prime_nonneg Let_def and_then_eq_Inr
  show "self_weights self' \<noteq> None"
    using ok none nv nh by (cases rng; cases "self_tied_weights self") (auto simp: ev)
  show "self_act_enc self' = self_act_enc self"
    using ok none nv nh by (cases rng; cases "self_tied_weights self") (auto simp: ev)
  show "layer_ready w' self' (nat nvis) (nat (self_nhid self))"
    using ok none nv nh hb
    by (cases rng; cases "self_tied_weights self")
       (auto simp: ev layer_ready_def half_minus_scaled_def)
qed

lemma set_visible_size_twice:
  assumes "set_visible_size lib w self nvis rng = Inr (self', w')"
    and "self_hidbias self = Some (SharedVariable k)" "k < shared_count w"
      "shared_values w k = Array1 b" "length b = nat (self_nhid self)"
  shows "set_visible_size lib w'' self' nvis' rng' = Inl ValueError"
  using set_visible_size_Inr(1)[OF assms] by (simp add: set_visible_size_def)

lemma set_visible_size_succeeds:
  assumes "self_weights self = None" "0 \<le> nvis" "0 \<le> self_nhid self"
    and params: "\<And>s. \<exists>ps. set_params lib s = Inr ps"
  shows "\<exists>self' w'. set_visible_size lib w self nvis rng = Inr (self', w')"
proof -
  note ev = set_visible_size_def initialize_visbias_nonneg initialize_weights_nonneg
    initialize_w_prime_nonneg Let_def
  have fin: "\<exists>self' w'. and_then (set_params lib s) (\<lambda>ps. Inr (s\<lparr>self_params := ps\<rparr>, w1)) = Inr (self', w')"
    for s and w1 :: "'a world"
    using params[of s] by auto
  show ?thesis
    using assms(1-3) by (cases rng; cases "self_tied_weights self") (simp_all add: ev fin)
qed

lemma deferred_lifecycle_untied:
  assumes ctor: "Autoencoder lib w (a\<lparr>arg_nvis := 0, arg_tied_weights := False\<rparr>) = Inr (self, w1)"
    and sv: "set_visible_size lib w1 self nvis rng = Inr (self', w2)"
    and x: "ncols x = nat nvis" and sp: "shape_preserving (self_act_enc self')"
  shows "self_weights self = None \<and> self_visbias self = None"
    and "\<exists>y. encode w2 self' (Tensor x) = Inr (Tensor y) \<and> nrows y = nrows x
              \<and> ncols y = nat (arg_nhid a)"
    and "set_visible_size lib w3 self' nvis' rng' = Inl ValueError"
proof -
  let ?a = "a\<lparr>arg_nvis := 0, arg_tied_weights := False\<rparr>"
  from ctor have ok: "Autoencoder_init lib w Autoencoder_class ?a = Inr (self, w1)"
    by (simp add: Autoencoder_def)
  from Autoencoder_init_Inr(5)[OF ok]
  show "self_weights self = None \<and> self_visbias self = None" by simp
  from Autoencoder_init_Inr(5)[OF ok] have hb: "self_hidbias self = Some (SharedVariable (shared_count w))"
    by simp
  from Autoencoder_init_Inr(6)[OF ok] have k: "shared_count w < shared_count w1" by simp
  from Autoencoder_init_Inr(3)[OF ok] have nh: "self_nhid self = arg_nhid a" by simp
  from Autoencoder_init_values(1)[OF ok]
  have v: "shared_values w1 (shared_count w) = Array1 (replicate (nat (arg_nhid a)) 0)" by simp
  have len: "length (replicate (nat (arg_nhid a)) (0::real)) = nat (self_nhid self)"
    using nh by simp
  from set_visible_size_Inr(2)[OF sv hb k v len] nh
  have "layer_ready w2 self' (nat nvis) (nat (arg_nhid a))" by simp
  from encode_ready[OF this sp x]
  show "\<exists>y. encode w2 self' (Tensor x) = Inr (Tensor y) \<and> nrows y = nrows x
              \<and> ncols y = nat (arg_nhid a)" .
  from set_visible_size_twice[OF sv hb k v len]
  show "set_visible_size lib w3 self' nvis' rng' = Inl ValueError" .
qed

text \<open>
  When \<^verbatim>\<open>reconstruct\<close> returns, on one batch or on a non-empty list of batches (of an
  object that is not a denoising autoencoder, whose \<^verbatim>\<open>reconstruct\<close> corrupts first), the
  stored regularization is the one computed for the batch, or for the last batch of the
  list.
\<close>

lemma same_model_refl [simp]: "same_model self self"
  by (simp add: same_model_def)

lemma same_model_trans: "same_model a b \<Longrightarrow> same_model b c \<Longrightarrow> same_model a c"
  by (simp add: same_model_def)

lemma same_model_fields:
  assumes "same_model self self'"
  shows "self_class self' = self_class self" "self_hidbias self' = self_hidbias self"
    "self_weights self' = self_weights self" "self_act_enc self' = self_act_enc self"
    "self_solution self' = self_solution self"
    "self_sparse_penalty self' = self_sparse_penalty self"
    "self_sparsity_target self' = self_sparsity_target self"
    "self_sparsity_target_penalty self' = self_sparsity_target_penalty self"
proof -
  from assms have eq: "self'\<lparr>self_hiddens := None, self_regularization := 0\<rparr>
        = self\<lparr>self_hiddens := None, self_regularization := 0\<rparr>"
    by (simp add: same_model_def)
  from arg_cong[OF eq, of self_class] show "self_class self' = self_class self" by simp
  from arg_cong[OF eq, of self_hidbias] show "self_hidbias self' = self_hidbias self" by simp
  from arg_cong[OF eq, of self_weights] show "self_weights self' = self_weights self" by simp
  from arg_cong[OF eq, of self_act_enc] show "self_act_enc self' = self_act_enc self" by simp
  from arg_cong[OF eq, of self_solution] show "self_solution self' = self_solution self" by simp
  from arg_cong[OF eq, of self_sparse_penalty]
  show "self_sparse_penalty self' = self_sparse_penalty self" by simp
  from arg_cong[OF eq, of self_sparsity_target]
  show "self_sparsity_target self' = self_sparsity_target self" by simp
  from arg_cong[OF eq, of self_sparsity_target_penalty]
  show "self_sparsity_target_penalty self' = self_sparsity_target_penalty self" by simp
qed

lemma same_model_uses:
  assumes "same_model self self'"
  shows "hidden_activation w self' x = hidden_activation w self x"
    and "compute_regularization self' h = compute_regularization self h"
    and "self_class self' = self_class self"
  using same_model_fields[OF assms]
  by (auto simp: hidden_activation_def hidden_input_def compute_regularization_def
        split: inputs.splits option.splits)

lemma Autoencoder_reconstruct_tensor_Inr:
  assumes "Autoencoder_reconstruct_tensor w self x = (self', Inr y)"
  shows "same_model self self'"
    and "\<exists>h. hidden_activation w self x = Inr h
              \<and> compute_regularization self (Tensor h) = Inr (self_regularization self')
              \<and> self_hiddens self' = Some (Tensor h)"
  using assms
  by (auto simp: Autoencoder_reconstruct_tensor_def same_model_def split: sum.splits)

lemma reconstruct_each_last:
  "reconstruct_each w self xs = (self', Inr ys) \<Longrightarrow> xs \<noteq> [] \<Longrightarrow>
   self_class self \<noteq> DenoisingAutoencoder_class \<Longrightarrow>
   same_model self self'
   \<and> (\<exists>h. hidden_activation w self (last xs) = Inr h
            \<and> compute_regularization self (Tensor h) = Inr (self_regularization self'))"
proof (induction xs arbitrary: self ys)
  case Nil
  then show ?case by simp
next
  case (Cons x xs)
  from Cons.prems(1,3) obtain s1 y where
    first: "Autoencoder_reconstruct_tensor w self x = (s1, Inr y)"
    by (auto simp: reconstruct_tensor_def split: prod.splits sum.splits)
  note f = Autoencoder_reconstruct_tensor_Inr[OF first]
  show ?case
  proof (cases "xs = []")
    case True
    with Cons.prems(1,3) first have "self' = s1"
      by (simp add: reconstruct_tensor_def)
    with f True show ?thesis by auto
  next
    case False
    from Cons.prems(1,3) first obtain ys' where
      rest: "reconstruct_each w s1 xs = (self', Inr ys')"
      by (auto simp: reconstruct_tensor_def split: prod.splits sum.splits)
    from same_model_uses(3)[OF f(1)] Cons.prems(3)
    have cls: "self_class s1 \<noteq> DenoisingAutoencoder_class" by simp
    from Cons.IH[OF rest False cls] obtain h where
      sm: "same_model s1 self'"
      and h: "hidden_activation w s1 (last xs) = Inr h"
             "compute_regularization s1 (Tensor h) = Inr (self_regularization self')"
      by blast
    from h
    have "hidden_activation w self (last xs) = Inr h"
         "compute_regularization self (Tensor h) = Inr (self_regularization self')"
      by (simp_all add: same_model_uses(1,2)[OF f(1)])
    with same_model_trans[OF f(1) sm] False show ?thesis by simp
  qed
qed

lemma reconstruct_list_last_batch:
  assumes "Autoencoder_reconstruct w self (TensorList xs) = (self', Inr ys)" "xs \<noteq> []"
    "self_class self \<noteq> DenoisingAutoencoder_class"
  shows "\<exists>h. hidden_activation w self (last xs) = Inr h
            \<and> compute_regularization self (Tensor h) = Inr (compute_penalty_value self')"
proof -
  from assms(1) obtain hs reg zs where
    each: "reconstruct_each w (self\<lparr>self_hiddens := Some hs, self_regularization := reg\<rparr>) xs
             = (self', Inr zs)"
    by (auto simp: Autoencoder_reconstruct_def split: sum.splits prod.splits)
  let ?s = "self\<lparr>self_hiddens := Some hs, self_regularization := reg\<rparr>"
  have sm: "same_model self ?s" by (simp add: same_model_def)
  from assms(3) have "self_class ?s \<noteq> DenoisingAutoencoder_class" by simp
  from reconstruct_each_last[OF each assms(2) this] obtain h where
    "hidden_activation w ?s (last xs) = Inr h"
    "compute_regularization ?s (Tensor h) = Inr (self_regularization self')"
    by blast
  then show ?thesis
    by (auto simp: compute_penalty_value_def same_model_uses(1,2)[OF sm])
qed

lemma reconstruct_single_batch:
  assumes "Autoencoder_reconstruct w self (Tensor x) = (self', Inr y)"
  shows "\<exists>h. hidden_activation w self x = Inr h
            \<and> compute_regularization self (Tensor h) = Inr (compute_penalty_value self')
            \<and> self_hiddens self' = Some (Tensor h)"
proof -
  from assms obtain z where "Autoencoder_reconstruct_tensor w self x = (self', Inr z)"
    by (auto simp: Autoencoder_reconstruct_def split: sum.splits prod.splits)
  from Autoencoder_reconstruct_tensor_Inr(2)[OF this] show ?thesis
    by (simp add: compute_penalty_value_def)
qed

section \<open>The claims\<close>

text \<open>
  C8. Construction is deterministic in the seed: two autoencoders constructed with the same
  integer seed and the same other arguments have the same initial values of the visible
  bias, the hidden bias, the weights and the decoder weights, whatever else differs
  between the two constructions (the shared variables and generators that already exist);
  and if one construction raises, the other raises the same exception.
\<close>

theorem seeded_construction_deterministic:
  "map_sum id (\<lambda>(self, w'). parameter_values w' self) (Autoencoder lib w1 (a\<lparr>arg_rng := RngSeed s\<rparr>))
   = map_sum id (\<lambda>(self, w'). parameter_values w' self) (Autoencoder lib w2 (a\<lparr>arg_rng := RngSeed s\<rparr>))"
  unfolding Autoencoder_def by (rule seeded_init_world_independent)

text \<open>
  C10. The assertion of \<^verbatim>\<open>_initialize_w_prime\<close> is vacuous: its argument is a pair,
  which is true, so the method never raises AssertionError; called on a model with tied
  weights it allocates a new shared variable for \<^verbatim>\<open>w_prime\<close>, of shape
  \<open>(nhid, nvis)\<close>, independent of the weights.
\<close>

theorem initialize_w_prime_assert_vacuous:
  "initialize_w_prime lib w self nvis rng irange \<noteq> Inl AssertionError
   \<and> (case initialize_w_prime lib w (self\<lparr>self_tied_weights := True, self_nhid := int h\<rparr>) (int n) rng irange of
        Inl e \<Rightarrow> False
      | Inr (self', w') \<Rightarrow>
          self_tied_weights self' \<and> self_weights self' = self_weights self
          \<and> self_w_prime self' = Some (SharedVariable (shared_count w))
          \<and> shared_count w' = Suc (shared_count w)
          \<and> (\<exists>xs. get_value w' (SharedVariable (shared_count w)) = Array2 (Matrix h n xs)))"
proof
  show "initialize_w_prime lib w self nvis rng irange \<noteq> Inl AssertionError"
  proof (cases "nvis < 0 \<or> self_nhid self < 0")
    case True
    then show ?thesis by (simp add: initialize_w_prime_negative)
  next
    case False
    then show ?thesis by (simp add: initialize_w_prime_nonneg Let_def)
  qed
next
  show "case initialize_w_prime lib w (self\<lparr>self_tied_weights := True, self_nhid := int h\<rparr>) (int n) rng irange of
        Inl e \<Rightarrow> False
      | Inr (self', w') \<Rightarrow>
          self_tied_weights self' \<and> self_weights self' = self_weights self
          \<and> self_w_prime self' = Some (SharedVariable (shared_count w))
          \<and> shared_count w' = Suc (shared_count w)
          \<and> (\<exists>xs. get_value w' (SharedVariable (shared_count w)) = Array2 (Matrix h n xs))"
    by (simp add: initialize_w_prime_nonneg Let_def half_minus_scaled_def)
qed

text \<open>
  C4. \<^verbatim>\<open>compute_regularization(h)\<close> returns \<open>sparse_penalty * sum(h)\<close> when the solution is
  \<^verbatim>\<open>'l1_penalty'\<close>, \<open>sparsity_target_penalty * sum((h - sparsity_target)\<^sup>2)\<close> when it is
  \<^verbatim>\<open>'sqr_penalty'\<close>, and 0 for every other solution (empty, unrecognized or \<^verbatim>\<open>None\<close>),
  without raising; and it depends on the object only through the solution and the three
  coefficients.
\<close>

theorem compute_regularization_cases:
  "compute_regularization (self\<lparr>self_solution := Some ''l1_penalty'', self_sparse_penalty := Some l\<rparr>) (Tensor h)
     = Inr (l * sum_list (cells h))
   \<and> compute_regularization
        (self\<lparr>self_solution := Some ''sqr_penalty'', self_sparsity_target := Some t,
              self_sparsity_target_penalty := Some p\<rparr>) (Tensor h)
     = Inr (p * (\<Sum>x\<leftarrow>cells h. (x - t)\<^sup>2))
   \<and> (s \<noteq> Some ''l1_penalty'' \<and> s \<noteq> Some ''sqr_penalty''
        \<longrightarrow> compute_regularization (self\<lparr>self_solution := s\<rparr>) hs = Inr 0)
   \<and> (self_solution self = self_solution other
        \<and> self_sparse_penalty self = self_sparse_penalty other
        \<and> self_sparsity_target self = self_sparsity_target other
        \<and> self_sparsity_target_penalty self = self_sparsity_target_penalty other
        \<longrightarrow> compute_regularization self hs = compute_regularization other hs)"
proof (intro conjI impI)
  assume "self_solution self = self_solution other
        \<and> self_sparse_penalty self = self_sparse_penalty other
        \<and> self_sparsity_target self = self_sparsity_target other
        \<and> self_sparsity_target_penalty self = self_sparsity_target_penalty other"
  then show "compute_regularization self hs = compute_regularization other hs"
    by (auto simp: compute_regularization_def split: inputs.splits option.splits)
qed (simp_all add: compute_regularization_def)

theorem compute_regularization_cases_witness:
  "compute_regularization ((new_object Autoencoder_class)\<lparr>self_solution := Some ''l1_penalty'', self_sparse_penalty := Some 3\<rparr>)
      (Tensor (Matrix 1 2 [1, 2])) = Inr 9
   \<and> compute_regularization
        ((new_object Autoencoder_class)\<lparr>self_solution := Some ''sqr_penalty'', self_sparsity_target := Some 1,
              self_sparsity_target_penalty := Some 2\<rparr>) (Tensor (Matrix 1 2 [1, 3])) = Inr 8
   \<and> compute_regularization ((new_object Autoencoder_class)\<lparr>self_solution := Some ''l2_penalty''\<rparr>)
        (Tensor (Matrix 1 2 [1, 2])) = Inr 0
   \<and> compute_regularization ((new_object Autoencoder_class)\<lparr>self_solution := Some ''''\<rparr>)
        (TensorList [Matrix 1 2 [1, 2]]) = Inr 0
   \<and> compute_regularization ((new_object Autoencoder_class)\<lparr>self_solution := Some ''l1_penalty'', self_sparse_penalty := Some 3\<rparr>) (Tensor (Matrix 1 1 [5]))
     = compute_regularization ((new_object ContractingAutoencoder_class)\<lparr>self_solution := Some ''l1_penalty'', self_sparse_penalty := Some 3, self_nhid := 7\<rparr>) (Tensor (Matrix 1 1 [5]))"
  using compute_regularization_cases
          [where self = "new_object Autoencoder_class" and l = 3 and h = "Matrix 1 2 [1, 2]"
             and t = 1 and p = 2 and s = "Some ''l2_penalty''" and hs = "Tensor (Matrix 1 2 [1, 2])"
             and other = "new_object Autoencoder_class"]
        compute_regularization_cases
          [where self = "new_object Autoencoder_class" and l = 3 and h = "Matrix 1 2 [1, 3]"
             and t = 1 and p = 2 and s = "Some ''''" and hs = "TensorList [Matrix 1 2 [1, 2]]"
             and other = "new_object Autoencoder_class"]
        compute_regularization_cases
          [where self = "(new_object Autoencoder_class)\<lparr>self_solution := Some ''l1_penalty'', self_sparse_penalty := Some 3\<rparr>"
             and l = 3 and h = "Matrix 1 2 [1, 2]" and t = 1 and p = 2 and s = "Some ''''"
             and hs = "Tensor (Matrix 1 1 [5])"
             and other = "(new_object ContractingAutoencoder_class)\<lparr>self_solution := Some ''l1_penalty'', self_sparse_penalty := Some 3, self_nhid := 7\<rparr>"]
  by (simp add: new_object_def)

text \<open>
  C5. The claim says that a contracting autoencoder with the linear encoder activation
  (\<^verbatim>\<open>None\<close> or \<^verbatim>\<open>"linear"\<close>) can be constructed. The code does not: whenever the base
  constructor succeeds, \<^verbatim>\<open>self.act_enc(dummyinput)\<close> calls \<^verbatim>\<open>None\<close> and raises TypeError,
  so the construction never succeeds.
\<close>

theorem contracting_linear_raises:
  "ContractingAutoencoder lib w (a\<lparr>arg_act_enc := ActNone\<rparr>)
     = (case Autoencoder_init lib w ContractingAutoencoder_class (a\<lparr>arg_act_enc := ActNone\<rparr>) of
          Inl e \<Rightarrow> Inl e | Inr ok \<Rightarrow> Inl TypeError)
   \<and> ContractingAutoencoder lib w (a\<lparr>arg_act_enc := ActName ''linear''\<rparr>)
     = (case Autoencoder_init lib w ContractingAutoencoder_class (a\<lparr>arg_act_enc := ActName ''linear''\<rparr>) of
          Inl e \<Rightarrow> Inl e | Inr ok \<Rightarrow> Inl TypeError)"
proof -
  have "ContractingAutoencoder lib w b
     = (case Autoencoder_init lib w ContractingAutoencoder_class b of
          Inl e \<Rightarrow> Inl e | Inr ok \<Rightarrow> Inl TypeError)"
    if "resolve_callable lib (arg_act_enc b) = Inr None" for b
  proof (cases "Autoencoder_init lib w ContractingAutoencoder_class b")
    case (Inl e)
    then show ?thesis by (simp add: ContractingAutoencoder_def)
  next
    case (Inr ok)
    obtain self w' where ok: "ok = (self, w')" by (cases ok)
    from Inr ok Autoencoder_init_Inr(4) [of lib w ContractingAutoencoder_class b self w'] that
    have "self_act_enc self = None" by simp
    with Inr ok show ?thesis by (simp add: ContractingAutoencoder_def)
  qed
  from this [of "a\<lparr>arg_act_enc := ActNone\<rparr>"] this [of "a\<lparr>arg_act_enc := ActName ''linear''\<rparr>"]
  show ?thesis by (simp add: resolve_callable_def)
qed

text \<open>
  C3. The claim says that construction with \<^verbatim>\<open>nvis == 0\<close> succeeds for every setting of
  \<^verbatim>\<open>tied_weights\<close>. With tied weights it never does: \<^verbatim>\<open>self.weights\<close> is \<^verbatim>\<open>None\<close> and
  \<^verbatim>\<open>self.weights.T\<close> raises AttributeError (unless an earlier check already raised).
\<close>

theorem deferred_tied_construction_raises:
  "isl (Autoencoder lib w (a\<lparr>arg_nvis := 0, arg_tied_weights := True\<rparr>))
   \<and> Autoencoder counting_library empty_world deferred_tied_args = Inl AttributeError"
proof
  show "isl (Autoencoder lib w (a\<lparr>arg_nvis := 0, arg_tied_weights := True\<rparr>))"
  proof (cases "Autoencoder lib w (a\<lparr>arg_nvis := 0, arg_tied_weights := True\<rparr>)")
    case (Inr ok)
    obtain self w' where "ok = (self, w')" by (cases ok)
    with Inr Autoencoder_init_Inr(1) [of lib w Autoencoder_class "a\<lparr>arg_nvis := 0, arg_tied_weights := True\<rparr>" self w']
    show ?thesis by (simp add: Autoencoder_def)
  qed simp
next
  show "Autoencoder counting_library empty_world deferred_tied_args = Inl AttributeError"
    by (simp add: Autoencoder_def init_eval deferred_tied_args_def make_rng_seed
          counting_library_def empty_world_def)
qed

text \<open>
  C9. The claim says that after \<^verbatim>\<open>reconstruct\<close> on a non-empty list of batches
  \<^verbatim>\<open>compute_penalty_value\<close> returns the regularization of the last batch. With the solution
  \<^verbatim>\<open>'sqr_penalty'\<close> the call on a list always raises (the regularization is computed on
  the Python list of hiddens before the list is taken apart) and leaves the stored
  regularization as it was; on the constructed object below the penalty value stays 0
  while the regularization of the batch is not 0.
\<close>

theorem reconstruct_list_sqr_penalty_raises:
  "isl (snd (Autoencoder_reconstruct w (self\<lparr>self_solution := Some ''sqr_penalty''\<rparr>) (TensorList xs)))
   \<and> compute_penalty_value
        (fst (Autoencoder_reconstruct w (self\<lparr>self_solution := Some ''sqr_penalty''\<rparr>) (TensorList xs)))
      = compute_penalty_value self
   \<and> snd (Autoencoder_reconstruct (snd (projr (Autoencoder counting_library empty_world sqr_args)))
             (fst (projr (Autoencoder counting_library empty_world sqr_args)))
             (TensorList [Matrix 1 1 [1]])) = Inl TypeError
   \<and> compute_penalty_value
        (fst (Autoencoder_reconstruct (snd (projr (Autoencoder counting_library empty_world sqr_args)))
               (fst (projr (Autoencoder counting_library empty_world sqr_args)))
               (TensorList [Matrix 1 1 [1]]))) = 0
   \<and> and_then (encode (snd (projr (Autoencoder counting_library empty_world sqr_args)))
                 (fst (projr (Autoencoder counting_library empty_world sqr_args)))
                 (Tensor (Matrix 1 1 [1])))
        (compute_regularization (fst (projr (Autoencoder counting_library empty_world sqr_args))))
      = Inr (20263493247001 / 81054009000000)"
proof (intro conjI)
  show "isl (snd (Autoencoder_reconstruct w (self\<lparr>self_solution := Some ''sqr_penalty''\<rparr>) (TensorList xs)))"
    by (cases "encode w (self\<lparr>self_solution := Some ''sqr_penalty''\<rparr>) (TensorList xs)")
       (auto simp: Autoencoder_reconstruct_def compute_regularization_def encode_def and_then_eq_Inr)
  show "compute_penalty_value
        (fst (Autoencoder_reconstruct w (self\<lparr>self_solution := Some ''sqr_penalty''\<rparr>) (TensorList xs)))
      = compute_penalty_value self"
    by (cases "encode w (self\<lparr>self_solution := Some ''sqr_penalty''\<rparr>) (TensorList xs)")
       (auto simp: Autoencoder_reconstruct_def compute_regularization_def encode_def and_then_eq_Inr
          compute_penalty_value_def)
qed (simp_all add: run_eval sqr_args_def power2_eq_square)

text \<open>
  C1. For an autoencoder constructed with tied weights and \<open>nvis > 0\<close>, the decoder weight
  matrix is the transpose view of the shared variable that holds the encoder weights: no
  cell is allocated for it (the constructor allocates three cells: the two biases and the
  weights), it is not in the parameter list, and after any in-place update of the encoder
  weights, or any sequence of them, its value is the transpose of the new encoder weights.
\<close>

theorem tied_decoder_is_transpose_view:
  assumes tied: "arg_tied_weights a" and nv: "0 < arg_nvis a"
    and ok: "Autoencoder lib w a = Inr (self, w')"
  shows "\<exists>W. self_weights self = Some W \<and> self_w_prime self = Some (Transposed W)
           \<and> self_params self = [self_visbias self, self_hidbias self, self_weights self]
           \<and> self_w_prime self \<notin> set (self_params self)
           \<and> shared_count w' = shared_count w + 3
           \<and> (\<exists>m. get_value w' W = Array2 m \<and> well_shaped m
                  \<and> nrows m = nat (arg_nvis a) \<and> ncols m = nat (arg_nhid a)
                  \<and> get_value w' (Transposed W) = Array2 (matrix_T m))
           \<and> (\<forall>x. get_value (set_value W x w') (Transposed W) = ndarray_T x)
           \<and> (\<forall>xs. get_value (fold (set_value W) xs w') (Transposed W)
                      = ndarray_T (get_value (fold (set_value W) xs w') W))
           \<and> (\<forall>m. get_value (set_value W (Array2 m) w') (Transposed W) = Array2 (matrix_T m)
                  \<and> (\<forall>i j. well_shaped m \<and> i < nrows m \<and> j < ncols m
                        \<longrightarrow> entry (matrix_T m) j i = entry m i j))"
proof -
  from ok have ok': "Autoencoder_init lib w Autoencoder_class a = Inr (self, w')"
    by (simp add: Autoencoder_def)
  define W where "W = SharedVariable (shared_count w + 2)"
  from Autoencoder_init_Inr(5)[OF ok'] tied nv
  have fields: "self_weights self = Some W" "self_w_prime self = Some (Transposed W)"
    "self_visbias self = Some (SharedVariable (shared_count w + 1))"
    "self_hidbias self = Some (SharedVariable (shared_count w))"
    "self_params self = [self_visbias self, self_hidbias self, self_weights self]"
    by (simp_all add: W_def)
  then have notin: "self_w_prime self \<notin> set (self_params self)" by (simp add: W_def)
  from Autoencoder_init_Inr(6)[OF ok'] tied nv
  have count: "shared_count w' = shared_count w + 3" by simp
  from Autoencoder_init_values(3)[OF ok' nv] obtain m where
    m: "get_value w' W = Array2 m" "well_shaped m" "nrows m = nat (arg_nvis a)"
       "ncols m = nat (arg_nhid a)"
    by (auto simp: W_def half_minus_scaled_def well_shaped_def)
  then have view: "get_value w' (Transposed W) = Array2 (matrix_T m)" by simp
  have upd: "get_value (set_value W x w') (Transposed W) = ndarray_T x" for x
    by (simp add: W_def)
  have upds: "get_value (fold (set_value W) xs w') (Transposed W)
                = ndarray_T (get_value (fold (set_value W) xs w') W)" for xs
    by simp
  have entries: "get_value (set_value W (Array2 m') w') (Transposed W) = Array2 (matrix_T m')
                  \<and> (\<forall>i j. well_shaped m' \<and> i < nrows m' \<and> j < ncols m'
                        \<longrightarrow> entry (matrix_T m') j i = entry m' i j)" for m'
    by (simp add: W_def entry_matrix_T)
  from fields(1,2,5) notin count m view upd upds entries show ?thesis by blast
qed

theorem tied_decoder_is_transpose_view_witness:
  "arg_tied_weights tied_args \<and> 0 < arg_nvis tied_args
   \<and> self_weights (fst (projr (Autoencoder counting_library empty_world tied_args)))
       = Some (SharedVariable 2)
   \<and> self_w_prime (fst (projr (Autoencoder counting_library empty_world tied_args)))
       = Some (Transposed (SharedVariable 2))
   \<and> self_w_prime (fst (projr (Autoencoder counting_library empty_world tied_args)))
       \<notin> set (self_params (fst (projr (Autoencoder counting_library empty_world tied_args))))
   \<and> get_value (set_value (SharedVariable 2) (Array2 (Matrix 2 1 [3, 4]))
         (snd (projr (Autoencoder counting_library empty_world tied_args))))
       (Transposed (SharedVariable 2)) = Array2 (Matrix 1 2 [3, 4])"
proof -
  have h1: "arg_tied_weights tied_args" by (simp add: tied_args_def)
  have h2: "0 < arg_nvis tied_args" by (simp add: tied_args_def)
  have h3: "Autoencoder counting_library empty_world tied_args
     = Inr (fst (projr (Autoencoder counting_library empty_world tied_args)),
            snd (projr (Autoencoder counting_library empty_world tied_args)))"
    using tied_construction by simp
  have W: "self_weights (fst (projr (Autoencoder counting_library empty_world tied_args)))
       = Some (SharedVariable 2)"
    by (simp add: run_eval tied_args_def numeral_2_eq_2)
  have T: "matrix_T (Matrix 2 1 [3, 4]) = Matrix 1 2 [3, 4]"
    by (simp add: matrix_T_def numeral_2_eq_2)
  from tied_decoder_is_transpose_view[OF h1 h2 h3] W T h1 h2 show ?thesis by auto
qed

text \<open>
  C2. The claim says that the initial weights lie in \<open>[-irange/2, +irange/2]\<close>. The code
  computes \<^verbatim>\<open>.5 - rand * irange\<close>, which lies in \<open>(1/2 - irange, 1/2]\<close>: for every
  \<open>irange\<close> up to \<open>1/3\<close> (the default is \<open>1e-3\<close>) every initial weight is above
  \<open>irange/2\<close>, outside the claimed interval.
\<close>

theorem initial_weights_not_centred:
  assumes draws: "unit_interval_draws lib"
    and ir: "0 < arg_irange a" "arg_irange a \<le> 1 / 3"
    and nv: "0 < arg_nvis a"
    and ok: "Autoencoder lib w a = Inr (self, w')"
  shows "\<exists>W m. self_weights self = Some W \<and> get_value w' W = Array2 m
           \<and> nrows m = nat (arg_nvis a) \<and> ncols m = nat (arg_nhid a)
           \<and> cells m \<noteq> []
           \<and> (\<forall>x \<in> set (cells m). arg_irange a / 2 < x \<and> x \<le> 1 / 2)"
proof -
  from ok have ok': "Autoencoder_init lib w Autoencoder_class a = Inr (self, w')"
    by (simp add: Autoencoder_def)
  from Autoencoder_init_Inr(1)[OF ok'] have nh: "0 < arg_nhid a" by simp
  from Autoencoder_init_Inr(5)[OF ok'] nv
  have W: "self_weights self = Some (SharedVariable (shared_count w + 2))" by simp
  from Autoencoder_init_values(3)[OF ok' nv] obtain g where
    val: "shared_values w' (shared_count w + 2) =
             Array2 (half_minus_scaled
               (Matrix (nat (arg_nvis a)) (nat (arg_nhid a))
                  (fst (draw_samples (random_sample lib) (nat (arg_nvis a) * nat (arg_nhid a)) g)))
               (arg_irange a))" by blast
  define xs where "xs = fst (draw_samples (random_sample lib) (nat (arg_nvis a) * nat (arg_nhid a)) g)"
  define m where "m = half_minus_scaled (Matrix (nat (arg_nvis a)) (nat (arg_nhid a)) xs) (arg_irange a)"
  have len: "length xs = nat (arg_nvis a) * nat (arg_nhid a)" by (simp add: xs_def)
  with nv nh have "xs \<noteq> []" by auto
  then have nonempty: "cells m \<noteq> []" by (simp add: m_def half_minus_scaled_def)
  have range: "arg_irange a / 2 < y \<and> y \<le> 1 / 2" if "y \<in> set (cells m)" for y
  proof -
    from that obtain x where x: "x \<in> set xs" and y: "y = 1 / 2 - x * arg_irange a"
      by (auto simp: m_def half_minus_scaled_def)
    from draw_samples_unit_interval[OF draws] x have "0 \<le> x \<and> x < 1"
      unfolding xs_def by blast
    with half_minus_scaled_off_centre[of x "arg_irange a"] ir y show ?thesis by simp
  qed
  have "get_value w' (SharedVariable (shared_count w + 2)) = Array2 m"
    using val by (simp add: m_def xs_def)
  moreover have "nrows m = nat (arg_nvis a) \<and> ncols m = nat (arg_nhid a)"
    by (simp add: m_def half_minus_scaled_def)
  ultimately show ?thesis using W nonempty range by blast
qed

theorem initial_weights_not_centred_witness:
  "unit_interval_draws counting_library \<and> 0 < arg_irange default_args
   \<and> arg_irange default_args \<le> 1 / 3 \<and> 0 < arg_nvis default_args
   \<and> (\<exists>W m. self_weights (fst (projr (Autoencoder counting_library empty_world default_args))) = Some W
          \<and> get_value (snd (projr (Autoencoder counting_library empty_world default_args))) W = Array2 m
          \<and> nrows m = nat (arg_nvis default_args) \<and> ncols m = nat (arg_nhid default_args)
          \<and> cells m \<noteq> []
          \<and> (\<forall>x \<in> set (cells m). arg_irange default_args / 2 < x \<and> x \<le> 1 / 2))"
proof -
  have h1: "unit_interval_draws counting_library" by (rule counting_library_unit_interval)
  have h2: "0 < arg_irange default_args" by (simp add: default_args_def)
  have h3: "arg_irange default_args \<le> 1 / 3" by (simp add: default_args_def)
  have h4: "0 < arg_nvis default_args" by (simp add: default_args_def)
  have h5: "Autoencoder counting_library empty_world default_args
     = Inr (fst (projr (Autoencoder counting_library empty_world default_args)),
            snd (projr (Autoencoder counting_library empty_world default_args)))"
    using default_construction by simp
  from initial_weights_not_centred[OF h1 h2 h3 h4 h5] h1 h2 h3 h4 show ?thesis by blast
qed

text \<open>
  C6, amended. For every call of \<^verbatim>\<open>build_stacked_ae\<close> that succeeds, the stack has
  \<open>len(nhids)\<close> layers, layer \<open>i\<close> has hidden size \<open>nhids[i]\<close>, and its weight matrix has
  shape \<open>(nviss[i], nhids[i])\<close> with \<open>nviss = [nvis] + nhids[:-1]\<close>, except that for
  \<open>nvis = 0\<close> the weights of layer 0 are not allocated. When \<open>nvis > 0\<close>, \<open>nhids\<close> is not
  empty and the encoder activations preserve the shape of their argument, encoding a batch
  of width \<open>nvis\<close> through the stack gives a batch of width \<open>nhids[-1]\<close> with as many rows.
\<close>

theorem stack_layer_sizes:
  assumes ok: "build_stacked_ae lib w a = Inr (layers, w')"
  shows "length layers = length (stack_nhids a)
       \<and> (\<forall>i < length layers.
             self_nhid (layers ! i) = stack_nhids a ! i \<and> 0 < stack_nhids a ! i
           \<and> layer_shape w' (layers ! i) =
               (if 0 < (stack_nvis a # butlast (stack_nhids a)) ! i
                then Some (nat ((stack_nvis a # butlast (stack_nhids a)) ! i), nat (stack_nhids a ! i))
                else None))
       \<and> (0 < stack_nvis a \<and> stack_nhids a \<noteq> []
            \<and> (\<forall>l \<in> set layers. shape_preserving (self_act_enc l))
            \<and> ncols x = nat (stack_nvis a)
          \<longrightarrow> (\<exists>y. stack_encode w' layers (Tensor x) = Inr (Tensor y)
                   \<and> nrows y = nrows x \<and> ncols y = nat (last (stack_nhids a))))"
proof -
  let ?nhids = "stack_nhids a"
  let ?nviss = "stack_nvis a # butlast (stack_nhids a)"
  from stack_layers_built[OF ok] obtain corrs caes where
    ll: "length layers = length ?nhids"
    and each: "\<forall>i < length ?nhids.
               \<not> (caes ! i \<and> corrs ! i \<noteq> None)
             \<and> (\<exists>wi wi' ae0 args.
                   Autoencoder_init lib wi (layer_class (caes ! i) (corrs ! i)) args = Inr (ae0, wi')
                 \<and> world_extends wi' w'
                 \<and> layers ! i = ae0\<lparr>self_corruptor := corrs ! i\<rparr>
                 \<and> arg_nvis args = ?nviss ! i
                 \<and> arg_nhid args = ?nhids ! i)"
    by blast
  have layer: "self_nhid (layers ! i) = ?nhids ! i \<and> 0 < ?nhids ! i \<and> 0 \<le> ?nviss ! i
           \<and> layer_shape w' (layers ! i) =
               (if 0 < ?nviss ! i then Some (nat (?nviss ! i), nat (?nhids ! i)) else None)
           \<and> (0 < ?nviss ! i \<longrightarrow> layer_ready w' (layers ! i) (nat (?nviss ! i)) (nat (?nhids ! i)))"
    if "i < length ?nhids" for i
  proof -
    from that each obtain wi wi' ae0 args where
      init: "Autoencoder_init lib wi (layer_class (caes ! i) (corrs ! i)) args = Inr (ae0, wi')"
      and ext: "world_extends wi' w'"
      and l: "layers ! i = ae0\<lparr>self_corruptor := corrs ! i\<rparr>"
      and a: "arg_nvis args = ?nviss ! i" "arg_nhid args = ?nhids ! i"
      by metis
    from layer_facts[OF init ext] l a show ?thesis by simp
  qed
  have pos: "0 < ?nviss ! i" if "0 < stack_nvis a" "i < length ?nhids" for i
  proof (cases i)
    case 0
    with that show ?thesis by simp
  next
    case (Suc j)
    with that have j: "j < length ?nhids" and "j < length (butlast ?nhids)" by simp_all
    then have "?nviss ! i = ?nhids ! j" using Suc by (simp add: nth_butlast)
    with layer[OF j] show ?thesis by simp
  qed
  have enc: "\<exists>y. stack_encode w' layers (Tensor x) = Inr (Tensor y)
                   \<and> nrows y = nrows x \<and> ncols y = nat (last ?nhids)"
    if nv: "0 < stack_nvis a" and ne: "?nhids \<noteq> []"
      and sp: "\<forall>l \<in> set layers. shape_preserving (self_act_enc l)"
      and x: "ncols x = nat (stack_nvis a)"
  proof -
    have l1: "length layers = length (map nat ?nhids)" using ll by simp
    have l2: "\<forall>i < length (map nat ?nhids).
                layer_ready w' (layers ! i) ((nat (stack_nvis a) # butlast (map nat ?nhids)) ! i)
                  (map nat ?nhids ! i)
              \<and> shape_preserving (self_act_enc (layers ! i))"
    proof (intro allI impI)
      fix i assume "i < length (map nat ?nhids)"
      then have i: "i < length ?nhids" by simp
      have "(nat (stack_nvis a) # butlast (map nat ?nhids)) ! i = map nat ?nviss ! i"
        by (simp add: map_butlast)
      also have "\<dots> = nat (?nviss ! i)"
        using i ne by (intro nth_map) simp
      finally have "(nat (stack_nvis a) # butlast (map nat ?nhids)) ! i = nat (?nviss ! i)" .
      moreover from layer[OF i] pos[OF nv i]
      have "layer_ready w' (layers ! i) (nat (?nviss ! i)) (nat (?nhids ! i))" by simp
      moreover from sp i ll have "shape_preserving (self_act_enc (layers ! i))" by simp
      ultimately show "layer_ready w' (layers ! i) ((nat (stack_nvis a) # butlast (map nat ?nhids)) ! i)
                  (map nat ?nhids ! i)
              \<and> shape_preserving (self_act_enc (layers ! i))"
        using i by simp
    qed
    from stack_encode_widths[OF l1 l2 x] ne show ?thesis by (simp add: last_map)
  qed
  from ll layer enc show ?thesis by simp
qed

theorem stack_layer_sizes_witness:
  "build_stacked_ae counting_library empty_world demo_stack
     = Inr (fst (projr (build_stacked_ae counting_library empty_world demo_stack)),
            snd (projr (build_stacked_ae counting_library empty_world demo_stack)))
   \<and> 0 < stack_nvis demo_stack \<and> stack_nhids demo_stack \<noteq> []
   \<and> map self_act_enc (fst (projr (build_stacked_ae counting_library empty_world demo_stack)))
       = [Some rectifier, Some rectifier]
   \<and> shape_preserving (Some rectifier)
   \<and> ncols (Matrix 5 2 (replicate 10 0)) = nat (stack_nvis demo_stack)
   \<and> length (fst (projr (build_stacked_ae counting_library empty_world demo_stack))) = 2
   \<and> layer_shape (snd (projr (build_stacked_ae counting_library empty_world demo_stack)))
       (fst (projr (build_stacked_ae counting_library empty_world demo_stack)) ! 0) = Some (2, 2)
   \<and> layer_shape (snd (projr (build_stacked_ae counting_library empty_world demo_stack)))
       (fst (projr (build_stacked_ae counting_library empty_world demo_stack)) ! 1) = Some (2, 1)
   \<and> (\<exists>y. stack_encode (snd (projr (build_stacked_ae counting_library empty_world demo_stack)))
              (fst (projr (build_stacked_ae counting_library empty_world demo_stack)))
              (Tensor (Matrix 5 2 (replicate 10 0))) = Inr (Tensor y)
          \<and> nrows y = 5 \<and> ncols y = 1)"
proof -
  let ?layers = "fst (projr (build_stacked_ae counting_library empty_world demo_stack))"
  let ?w' = "snd (projr (build_stacked_ae counting_library empty_world demo_stack))"
  let ?x = "Matrix 5 2 (replicate 10 0)"
  have ok: "build_stacked_ae counting_library empty_world demo_stack = Inr (?layers, ?w')"
    using demo_stack_built by simp
  have h1: "0 < stack_nvis demo_stack" and h2: "stack_nhids demo_stack \<noteq> []"
    and h4: "ncols ?x = nat (stack_nvis demo_stack)"
    by (simp_all add: demo_stack_def)
  have h3: "\<forall>l \<in> set ?layers. shape_preserving (self_act_enc l)"
  proof
    fix l assume "l \<in> set ?layers"
    then have "self_act_enc l \<in> set (map self_act_enc ?layers)" by simp
    then have "self_act_enc l = Some rectifier" by (simp add: demo_stack_acts)
    then show "shape_preserving (self_act_enc l)" by (simp add: shape_preserving_rectifier)
  qed
  note sizes = stack_layer_sizes[OF ok, of ?x]
  from sizes have len: "length ?layers = 2" by (simp add: demo_stack_def)
  from sizes len have "layer_shape ?w' (?layers ! 0) = Some (2, 2)"
    and "layer_shape ?w' (?layers ! 1) = Some (2, 1)"
    by (simp_all add: demo_stack_def)
  moreover from sizes h1 h2 h3 h4
  have "\<exists>y. stack_encode ?w' ?layers (Tensor ?x) = Inr (Tensor y)
          \<and> nrows y = nrows ?x \<and> ncols y = nat (last (stack_nhids demo_stack))"
    by blast
  then have "\<exists>y. stack_encode ?w' ?layers (Tensor ?x) = Inr (Tensor y) \<and> nrows y = 5 \<and> ncols y = 1"
    by (simp add: demo_stack_def)
  ultimately show ?thesis
    using ok h1 h2 h4 len demo_stack_acts shape_preserving_rectifier by blast
qed

text \<open>
  C6 as stated fails for \<open>nvis = 0\<close>: the call succeeds and returns one layer, whose weights
  are left for \<^verbatim>\<open>set_visible_size\<close>, and encoding a batch of width 0 raises.
\<close>

theorem deferred_stack_cannot_encode:
  "\<not> isl (build_stacked_ae counting_library empty_world deferred_stack)
   \<and> length (fst (projr (build_stacked_ae counting_library empty_world deferred_stack))) = 1
   \<and> ncols (Matrix 5 0 []) = nat (stack_nvis deferred_stack)
   \<and> stack_encode (snd (projr (build_stacked_ae counting_library empty_world deferred_stack)))
        (fst (projr (build_stacked_ae counting_library empty_world deferred_stack)))
        (Tensor (Matrix 5 0 [])) = Inl TypeError"
  by (simp add: run_eval stack_eval deferred_stack_def)

text \<open>
  C7. A layer whose contracting flag is set and whose corruptor is not \<^verbatim>\<open>None\<close> raises
  ValueError before any constructor is called (whatever the other arguments of the layer
  are). In a stack that was built, no layer has both, and every layer is of exactly one
  class: contracting when its flag is set, denoising when its corruptor is present, plain
  when neither.
\<close>

theorem stack_layer_classes:
  "build_layer lib w r (nhid, nvis, act_enc, act_dec, Some c, True, rest) = Inl ValueError
   \<and> (build_stacked_ae lib w a = Inr (layers, w') \<longrightarrow>
        (\<exists>caes corrs.
            broadcast (length (stack_nhids a)) (stack_contracting a) = Inr caes
          \<and> broadcast (length (stack_nhids a)) (stack_corruptor a) = Inr corrs
          \<and> length layers = length (stack_nhids a)
          \<and> (\<forall>i < length layers.
                \<not> (caes ! i \<and> corrs ! i \<noteq> None)
              \<and> self_class (layers ! i) =
                  (if caes ! i then ContractingAutoencoder_class
                   else if corrs ! i \<noteq> None then DenoisingAutoencoder_class
                   else Autoencoder_class)
              \<and> self_corruptor (layers ! i) = corrs ! i)))"
proof (intro conjI impI)
  show "build_layer lib w r (nhid, nvis, act_enc, act_dec, Some c, True, rest) = Inl ValueError"
    by simp
next
  assume ok: "build_stacked_ae lib w a = Inr (layers, w')"
  from stack_layers_built[OF ok] obtain corrs caes where
    b: "broadcast (length (stack_nhids a)) (stack_corruptor a) = Inr corrs"
       "broadcast (length (stack_nhids a)) (stack_contracting a) = Inr caes"
    and ll: "length layers = length (stack_nhids a)"
    and each: "\<forall>i < length (stack_nhids a).
               \<not> (caes ! i \<and> corrs ! i \<noteq> None)
             \<and> (\<exists>wi wi' ae0 args.
                   Autoencoder_init lib wi (layer_class (caes ! i) (corrs ! i)) args = Inr (ae0, wi')
                 \<and> world_extends wi' w'
                 \<and> layers ! i = ae0\<lparr>self_corruptor := corrs ! i\<rparr>
                 \<and> arg_nvis args = (stack_nvis a # butlast (stack_nhids a)) ! i
                 \<and> arg_nhid args = stack_nhids a ! i)"
    by blast
  have "\<not> (caes ! i \<and> corrs ! i \<noteq> None)
        \<and> self_class (layers ! i) =
            (if caes ! i then ContractingAutoencoder_class
             else if corrs ! i \<noteq> None then DenoisingAutoencoder_class
             else Autoencoder_class)
        \<and> self_corruptor (layers ! i) = corrs ! i" if "i < length layers" for i
  proof -
    from that ll each obtain wi wi' ae0 args where
      no: "\<not> (caes ! i \<and> corrs ! i \<noteq> None)"
      and init: "Autoencoder_init lib wi (layer_class (caes ! i) (corrs ! i)) args = Inr (ae0, wi')"
      and l: "layers ! i = ae0\<lparr>self_corruptor := corrs ! i\<rparr>"
      by metis
    from Autoencoder_init_Inr(3)[OF init] have "self_class ae0 = layer_class (caes ! i) (corrs ! i)"
      by simp
    with no l show ?thesis by (simp add: layer_class_def)
  qed
  with b ll show "\<exists>caes corrs.
            broadcast (length (stack_nhids a)) (stack_contracting a) = Inr caes
          \<and> broadcast (length (stack_nhids a)) (stack_corruptor a) = Inr corrs
          \<and> length layers = length (stack_nhids a)
          \<and> (\<forall>i < length layers.
                \<not> (caes ! i \<and> corrs ! i \<noteq> None)
              \<and> self_class (layers ! i) =
                  (if caes ! i then ContractingAutoencoder_class
                   else if corrs ! i \<noteq> None then DenoisingAutoencoder_class
                   else Autoencoder_class)
              \<and> self_corruptor (layers ! i) = corrs ! i)"
    by blast
qed

theorem stack_layer_classes_witness:
  "build_stacked_ae counting_library empty_world demo_stack
     = Inr (fst (projr (build_stacked_ae counting_library empty_world demo_stack)),
            snd (projr (build_stacked_ae counting_library empty_world demo_stack)))
   \<and> length (fst (projr (build_stacked_ae counting_library empty_world demo_stack))) = 2
   \<and> self_class (fst (projr (build_stacked_ae counting_library empty_world demo_stack)) ! 0)
       = ContractingAutoencoder_class
   \<and> self_class (fst (projr (build_stacked_ae counting_library empty_world demo_stack)) ! 1)
       = DenoisingAutoencoder_class
   \<and> self_corruptor (fst (projr (build_stacked_ae counting_library empty_world demo_stack)) ! 1)
       = Some rectifier"
proof -
  let ?layers = "fst (projr (build_stacked_ae counting_library empty_world demo_stack))"
  let ?w' = "snd (projr (build_stacked_ae counting_library empty_world demo_stack))"
  have ok: "build_stacked_ae counting_library empty_world demo_stack = Inr (?layers, ?w')"
    using demo_stack_built by simp
  from stack_layer_classes[of counting_library empty_world 0 0 0 ActNone ActNone rectifier
         "(False, 0, None, None, None, None)" demo_stack ?layers ?w'] ok
  obtain caes corrs where
    b: "broadcast (length (stack_nhids demo_stack)) (stack_contracting demo_stack) = Inr caes"
       "broadcast (length (stack_nhids demo_stack)) (stack_corruptor demo_stack) = Inr corrs"
    and ll: "length ?layers = length (stack_nhids demo_stack)"
    and each: "\<forall>i < length ?layers.
                \<not> (caes ! i \<and> corrs ! i \<noteq> None)
              \<and> self_class (?layers ! i) =
                  (if caes ! i then ContractingAutoencoder_class
                   else if corrs ! i \<noteq> None then DenoisingAutoencoder_class
                   else Autoencoder_class)
              \<and> self_corruptor (?layers ! i) = corrs ! i"
    by blast
  from b have caes: "caes = [True, False]" and corrs: "corrs = [None, Some rectifier]"
    by (simp_all add: broadcast_def demo_stack_def)
  from ll have len: "length ?layers = 2" by (simp add: demo_stack_def)
  from each len have "self_class (?layers ! 0) =
                  (if caes ! 0 then ContractingAutoencoder_class
                   else if corrs ! 0 \<noteq> None then DenoisingAutoencoder_class
                   else Autoencoder_class)"
    and "self_class (?layers ! 1) =
                  (if caes ! 1 then ContractingAutoencoder_class
                   else if corrs ! 1 \<noteq> None then DenoisingAutoencoder_class
                   else Autoencoder_class)"
    and "self_corruptor (?layers ! 1) = corrs ! 1"
    by simp_all
  with caes corrs len ok show ?thesis by simp
qed

end
